theory Spec2Isabelle
  imports Complex_Main "HOL-Library.Word"
begin

unbundle bit_operations_syntax

section \<open>The audio pipeline of the austack Node.js SDK\<close>

text \<open>
  A shallow embedding of \<^verbatim>\<open>sdk/nodejs/src/AudioInterface.ts\<close>, of the
  \<^verbatim>\<open>WebSocketManager\<close> class and of \<^verbatim>\<open>ConversationManager.ts\<close>.

  Conventions of the embedding.
  \<^item> A \<^verbatim>\<open>Float32Array\<close> is a list of reals: every finite float32 sample is a real
    number. The arithmetic of \<^verbatim>\<open>calculateRMS\<close> is taken over the reals: the
    rounding of the double precision sum, quotient and square root is left out. The
    comparisons against 0.02, 0.01 and 0.05 are the source's. So \<open>rawRMS\<close> is the exact
    RMS of the samples, and for a frame whose exact RMS lies within the rounding error of
    0.02 the program's classification can differ from the model's. The general statements
    below take the classification of a frame (\<open>isSpeech\<close>, \<open>calculateRMS\<close>) as given.
    Concrete frames are buffers of 1024 equal samples whose RMS is away from 0.02 by far
    more than that rounding error; note that 0.02 itself is not a float32 value (a
    \<^verbatim>\<open>Float32Array\<close> stores 0.019999999552965164 for it, which is silence), and
    that the smallest float32 value above it is \<open>10737419 / 536870912\<close>. Where an
    example writes a sample as 0.1 or 0.01, it stands for the float32 value nearest to
    it, which is classified alike and converts to the same 16 bit value.
    The PCM conversions are exact in double precision for float32 samples (a 24 bit
    significand times 32767 fits a double, and a 16 bit integer divided by 32768 fits a
    float32), so there the reals are the program.
  \<^item> The capture device delivers buffers of \<^verbatim>\<open>chunkSize\<close> samples, never an empty
    one. For an empty buffer JavaScript computes NaN, which fails every comparison; the
    model computes 0, which fails the same speech and interrupt comparisons.
  \<^item> An \<^verbatim>\<open>Int16Array\<close> is a list of 16 bit words, a \<^verbatim>\<open>Uint8Array\<close> a list of
    bytes; the byte view of an \<^verbatim>\<open>Int16Array\<close> buffer is little endian, as on every
    platform the SDK runs on.
  \<^item> \<^verbatim>\<open>Date.now()\<close> is an input: \<^verbatim>\<open>processAudioData\<close> reads the clock up to three
    times (on entry and in the two calls of \<^verbatim>\<open>shouldSendAudio\<close>), and takes the
    three readings as arguments.
  \<^item> Every method takes the object's state and returns the new state together with the
    list of effects it had on the outside, in order: the callbacks it invoked, the
    commands it gave the audio device, what it reported on the console
    (\<^verbatim>\<open>console.warn\<close> and \<^verbatim>\<open>console.error\<close>; \<^verbatim>\<open>console.log\<close> lines are left
    out), and an exception that escaped it.
  \<^item> What the audio device and the socket answer is an input as well: whether
    \<^verbatim>\<open>source.start()\<close> throws, whether the socket opens.
\<close>

subsection \<open>Data\<close>

type_synonym Float32Array = "real list"
type_synonym Int16Array = "16 word list"
type_synonym Uint8Array = "8 word list"

text \<open>A thrown or rejected value: an \<^verbatim>\<open>Error\<close> with its message, or any other value
  (the \<^verbatim>\<open>Event\<close> a failing socket rejects with).\<close>

datatype js_error = JsError string | NonErrorValue

datatype effect =
    AmplitudeCallback real
  | OnInterrupt
  | InputCallback Uint8Array
  | SourceStart Float32Array
  | SourceEnded
  | SourceStop
  | ConsoleWarn string
  | ConsoleError string
  | Thrown js_error

text \<open>
  \<open>SourceStart\<close> is a successful \<^verbatim>\<open>source.start()\<close> on a buffer source holding the
  given samples: a render start. \<open>SourceEnded\<close> records the device's \<^verbatim>\<open>ended\<close>
  notification at the moment it is delivered to \<^verbatim>\<open>source.onended\<close>.
\<close>

text \<open>The answer of the audio device to one call of \<^verbatim>\<open>playNextOutputChunk\<close>:
  \<open>SetupThrows\<close> is an exception of \<^verbatim>\<open>createBuffer\<close>, \<^verbatim>\<open>copyToChannel\<close>,
  \<^verbatim>\<open>createBufferSource\<close> or \<^verbatim>\<open>connect\<close> (outside the \<^verbatim>\<open>try\<close>),
  \<open>StartThrows\<close> one of \<^verbatim>\<open>source.start()\<close>.\<close>

datatype device = DeviceOk | SetupThrows js_error | StartThrows js_error

text \<open>How far \<^verbatim>\<open>AudioInterface.start()\<close> gets.\<close>

datatype audio_env =
    AudioOk
  | GetUserMediaRejects js_error
  | InputContextThrows js_error
  | OutputContextThrows js_error
  | GraphThrows js_error

record AudioInterface =
  inputAudioContext :: bool
  outputAudioContext :: bool
  inputStream :: bool
  isRunning :: bool
  hasAmplitudeCallback :: bool
  hasOnInterrupt :: bool
  outputQueue :: "Uint8Array list"
  isOutputPlaying :: bool
  currentOutputSource :: "Float32Array option"
  isAudioPlaying :: bool
  lastSpeechTime :: "int option"
  audioBufferParts :: "Uint8Array list"
  lastSendTime :: int

text \<open>
  The three handles are modelled by whether they are non-null (and, for
  \<open>inputStream\<close>, the microphone tracks live). \<open>currentOutputSource\<close> holds the samples
  of the buffer source it points to. \<open>hasAmplitudeCallback\<close> and \<open>hasOnInterrupt\<close> say
  whether the optional constructor arguments were given.
\<close>

definition chunkSize :: nat where
  "chunkSize = 1024"

definition silenceThreshold :: real where
  "silenceThreshold = 1 / 100"

definition silenceTimeout :: int where
  "silenceTimeout = 2000"

definition sendInterval :: int where
  "sendInterval = 500"

definition interruptThreshold :: real where
  "interruptThreshold = 5 / 100"

text \<open>The constructor; \<open>now\<close> is the reading of \<^verbatim>\<open>Date.now()\<close> that initialises
  \<^verbatim>\<open>lastSendTime\<close>.\<close>

definition newAudioInterface :: "int \<Rightarrow> bool \<Rightarrow> bool \<Rightarrow> AudioInterface" where
  "newAudioInterface now amp intr =
     \<lparr> inputAudioContext = False, outputAudioContext = False, inputStream = False,
       isRunning = False, hasAmplitudeCallback = amp, hasOnInterrupt = intr,
       outputQueue = [], isOutputPlaying = False, currentOutputSource = None,
       isAudioPlaying = False, lastSpeechTime = None, audioBufferParts = [],
       lastSendTime = now \<rparr>"

subsection \<open>Voice activity detection\<close>

definition sumSquares :: "Float32Array \<Rightarrow> real" where
  "sumSquares audioData = foldl (\<lambda>sum x. sum + x * x) 0 audioData"

text \<open>The local \<^verbatim>\<open>rms\<close> of \<^verbatim>\<open>calculateRMS\<close>, before the noise floor.\<close>

definition rawRMS :: "Float32Array \<Rightarrow> real" where
  "rawRMS audioData = sqrt (sumSquares audioData / real (length audioData))"

definition calculateRMS :: "Float32Array \<Rightarrow> real" where
  "calculateRMS audioData =
     (let rms = rawRMS audioData in if rms < 2 / 100 then 0 else rms)"

definition isSpeech :: "Float32Array \<Rightarrow> bool" where
  "isSpeech audioData = (calculateRMS audioData > silenceThreshold)"

definition shouldSendAudio :: "int \<Rightarrow> AudioInterface \<Rightarrow> bool" where
  "shouldSendAudio now s =
     (case lastSpeechTime s of
        None \<Rightarrow> False
      | Some t \<Rightarrow> now - t < silenceTimeout)"

subsection \<open>PCM conversion\<close>

text \<open>Storing a number into an \<^verbatim>\<open>Int16Array\<close> truncates it towards zero and wraps
  it modulo \<open>2 ^ 16\<close>.\<close>

definition jsTruncate :: "real \<Rightarrow> int" where
  "jsTruncate r = (if r < 0 then \<lceil>r\<rceil> else \<lfloor>r\<rfloor>)"

definition toInt16 :: "real \<Rightarrow> 16 word" where
  "toInt16 r = word_of_int (jsTruncate r)"

definition float32ArrayToInt16Array :: "Float32Array \<Rightarrow> Int16Array" where
  "float32ArrayToInt16Array float32Array =
     map (\<lambda>x. toInt16 (max (- 1) (min 1 x) * 32767)) float32Array"

text \<open>\<^verbatim>\<open>new Uint8Array(int16Data.buffer)\<close>: the bytes of the buffer.\<close>

definition uint8View :: "Int16Array \<Rightarrow> Uint8Array" where
  "uint8View ws = concat (map (\<lambda>w. [ucast w, ucast (drop_bit 8 w)]) ws)"

text \<open>\<^verbatim>\<open>new Int16Array(buffer)\<close> on a buffer of even length.\<close>

fun int16View :: "Uint8Array \<Rightarrow> Int16Array" where
  "int16View (lo # hi # bs) = (ucast lo OR push_bit 8 (ucast hi)) # int16View bs"
| "int16View bs = []"

text \<open>\<^verbatim>\<open>new Int16Array(buffer)\<close> throws a \<^verbatim>\<open>RangeError\<close> when the byte length is
  odd.\<close>

definition convertPCMToFloat32 :: "Uint8Array \<Rightarrow> js_error + Float32Array" where
  "convertPCMToFloat32 pcmData =
     (if odd (length pcmData)
      then Inl (JsError ''byte length of Int16Array should be a multiple of 2'')
      else Inr (map (\<lambda>w. real_of_int (sint w) / 32768) (int16View pcmData)))"

subsection \<open>Capture: \<^verbatim>\<open>processAudioData\<close>\<close>

text \<open>The three blocks of \<^verbatim>\<open>processAudioData\<close> after the amplitude report, in the
  source's order: "Check for speech", "Buffer audio if we should send it", "Send batched
  audio periodically".\<close>

definition checkForSpeech ::
  "int \<Rightarrow> Float32Array \<Rightarrow> AudioInterface \<Rightarrow> AudioInterface \<times> effect list" where
  "checkForSpeech currentTime audioData s =
     (if isSpeech audioData
      then (let s1 = s\<lparr>lastSpeechTime := Some currentTime\<rparr>
            in if isAudioPlaying s1 \<and> calculateRMS audioData > interruptThreshold
                  \<and> hasOnInterrupt s1
               then (s1\<lparr>isAudioPlaying := False\<rparr>, [OnInterrupt])
               else (s1, []))
      else (s, []))"

definition bufferAudio :: "int \<Rightarrow> Float32Array \<Rightarrow> AudioInterface \<Rightarrow> AudioInterface" where
  "bufferAudio now audioData s =
     (if shouldSendAudio now s
      then s\<lparr>audioBufferParts :=
               audioBufferParts s @ [uint8View (float32ArrayToInt16Array audioData)]\<rparr>
      else s)"

definition sendDue :: "int \<Rightarrow> int \<Rightarrow> AudioInterface \<Rightarrow> bool" where
  "sendDue currentTime now s =
     (currentTime - lastSendTime s \<ge> sendInterval \<and> audioBufferParts s \<noteq> []
      \<and> shouldSendAudio now s)"

definition sendBatched :: "int \<Rightarrow> int \<Rightarrow> AudioInterface \<Rightarrow> AudioInterface \<times> effect list" where
  "sendBatched currentTime now s =
     (if sendDue currentTime now s
      then (s\<lparr>audioBufferParts := [], lastSendTime := currentTime\<rparr>,
            [InputCallback (concat (audioBufferParts s))])
      else (s, []))"

definition processAudioData ::
  "int \<Rightarrow> int \<Rightarrow> int \<Rightarrow> Float32Array \<Rightarrow> AudioInterface \<Rightarrow> AudioInterface \<times> effect list" where
  "processAudioData currentTime now1 now2 audioData s =
     (let amp = (if hasAmplitudeCallback s
                 then [AmplitudeCallback (calculateRMS audioData)] else []);
          (s1, intr) = checkForSpeech currentTime audioData s;
          s2 = bufferAudio now1 audioData s1;
          (s3, sent) = sendBatched currentTime now2 s2
      in (s3, amp @ intr @ sent))"

text \<open>The \<^verbatim>\<open>onaudioprocess\<close> handler installed by \<^verbatim>\<open>start()\<close>.\<close>

definition onaudioprocess ::
  "int \<Rightarrow> int \<Rightarrow> int \<Rightarrow> Float32Array \<Rightarrow> AudioInterface \<Rightarrow> AudioInterface \<times> effect list" where
  "onaudioprocess currentTime now1 now2 audioData s =
     (if \<not> isRunning s then (s, [])
      else processAudioData currentTime now1 now2 audioData s)"

subsection \<open>Playback\<close>

definition playNextOutputChunk :: "device \<Rightarrow> AudioInterface \<Rightarrow> AudioInterface \<times> effect list" where
  "playNextOutputChunk dev s =
     (if \<not> outputAudioContext s then (s\<lparr>isOutputPlaying := False\<rparr>, [])
      else case outputQueue s of
        [] \<Rightarrow> (s\<lparr>isOutputPlaying := False, isAudioPlaying := False,
                 currentOutputSource := None\<rparr>, [])
      | nextChunk # rest \<Rightarrow>
          (let s1 = s\<lparr>isOutputPlaying := True, outputQueue := rest\<rparr>
           in case convertPCMToFloat32 nextChunk of
                Inl e \<Rightarrow> (s1, [Thrown e])
              | Inr float32 \<Rightarrow>
                  (case dev of
                     SetupThrows e \<Rightarrow> (s1, [Thrown e])
                   | StartThrows e \<Rightarrow>
                       (s1\<lparr>isOutputPlaying := False, currentOutputSource := None\<rparr>,
                        [ConsoleError ''Error starting audio playback''])
                   | DeviceOk \<Rightarrow>
                       (s1\<lparr>currentOutputSource := Some float32\<rparr>,
                        [SourceStart float32]))))"

definition play :: "Uint8Array \<Rightarrow> device \<Rightarrow> AudioInterface \<Rightarrow> AudioInterface \<times> effect list" where
  "play audioData dev s =
     (if \<not> outputAudioContext s
      then (s, [ConsoleWarn ''Audio interface not initialized for playback''])
      else (let s1 = s\<lparr>isAudioPlaying := True, outputQueue := outputQueue s @ [audioData]\<rparr>
            in if \<not> isOutputPlaying s1 then playNextOutputChunk dev s1 else (s1, [])))"

definition setAudioPlaybackState :: "bool \<Rightarrow> AudioInterface \<Rightarrow> AudioInterface" where
  "setAudioPlaybackState isPlaying s = s\<lparr>isAudioPlaying := isPlaying\<rparr>"

definition isAudioPlaybackActive :: "AudioInterface \<Rightarrow> bool" where
  "isAudioPlaybackActive s = isAudioPlaying s"

definition interruptPlayback :: "AudioInterface \<Rightarrow> AudioInterface \<times> effect list" where
  "interruptPlayback s =
     (s\<lparr>outputQueue := [], isOutputPlaying := False, isAudioPlaying := False,
        currentOutputSource := None\<rparr>,
      if currentOutputSource s \<noteq> None then [SourceStop] else [])"

subsection \<open>Start and stop of the audio interface\<close>

definition start :: "audio_env \<Rightarrow> AudioInterface \<Rightarrow> AudioInterface \<times> effect list" where
  "start env s =
     (case env of
        GetUserMediaRejects e \<Rightarrow>
          (s, [ConsoleError ''Error starting audio interface:'', Thrown e])
      | InputContextThrows e \<Rightarrow>
          (s\<lparr>inputStream := True\<rparr>,
           [ConsoleError ''Error starting audio interface:'', Thrown e])
      | OutputContextThrows e \<Rightarrow>
          (s\<lparr>inputStream := True, inputAudioContext := True\<rparr>,
           [ConsoleError ''Error starting audio interface:'', Thrown e])
      | GraphThrows e \<Rightarrow>
          (s\<lparr>inputStream := True, inputAudioContext := True, outputAudioContext := True\<rparr>,
           [ConsoleError ''Error starting audio interface:'', Thrown e])
      | AudioOk \<Rightarrow>
          (s\<lparr>inputStream := True, inputAudioContext := True, outputAudioContext := True,
             isRunning := True\<rparr>, []))"

definition stop :: "AudioInterface \<Rightarrow> AudioInterface \<times> effect list" where
  "stop s =
     (s\<lparr>isRunning := False, outputQueue := [], isOutputPlaying := False,
        currentOutputSource := None, inputStream := False, inputAudioContext := False,
        outputAudioContext := False\<rparr>,
      if currentOutputSource s \<noteq> None then [SourceStop] else [])"

text \<open>The exception that escaped a call, if any.\<close>

fun raised :: "effect list \<Rightarrow> js_error option" where
  "raised [] = None"
| "raised (Thrown e # es) = Some e"
| "raised (x # es) = raised es"

subsection \<open>Runs of the audio interface\<close>

text \<open>What can happen to a constructed \<^verbatim>\<open>AudioInterface\<close>: a capture buffer arrives,
  a received chunk is handed to \<^verbatim>\<open>play\<close>, a buffer source reports \<^verbatim>\<open>ended\<close>, or
  one of the public methods is called.\<close>

datatype event =
    AudioProcess int int int Float32Array
  | Play Uint8Array device
  | Ended device
  | SetAudioPlaybackState bool
  | InterruptPlayback
  | Start audio_env
  | Stop

fun step :: "event \<Rightarrow> AudioInterface \<Rightarrow> AudioInterface \<times> effect list" where
  "step (AudioProcess t0 t1 t2 audioData) s = onaudioprocess t0 t1 t2 audioData s"
| "step (Play audioData dev) s = play audioData dev s"
| "step (Ended dev) s =
     (let (s1, out) = playNextOutputChunk dev s in (s1, SourceEnded # out))"
| "step (SetAudioPlaybackState b) s = (setAudioPlaybackState b s, [])"
| "step InterruptPlayback s = interruptPlayback s"
| "step (Start env) s = start env s"
| "step Stop s = stop s"

text \<open>A run threads the state through the events and appends their effects to the
  trace so far.\<close>

definition exec :: "event \<Rightarrow> AudioInterface \<times> effect list \<Rightarrow> AudioInterface \<times> effect list" where
  "exec e st = (let (s1, out) = step e (fst st) in (s1, snd st @ out))"

definition run :: "event list \<Rightarrow> AudioInterface \<times> effect list \<Rightarrow> AudioInterface \<times> effect list" where
  "run es st = foldl (\<lambda>st e. exec e st) st es"

text \<open>The chunks handed to \<^verbatim>\<open>play\<close> in a run, in order of receipt.\<close>

fun chunksOf :: "event list \<Rightarrow> Uint8Array list" where
  "chunksOf [] = []"
| "chunksOf (Play audioData dev # es) = audioData # chunksOf es"
| "chunksOf (e # es) = chunksOf es"

text \<open>The samples a chunk is rendered as (for a chunk of even length).\<close>

definition samplesOf :: "Uint8Array \<Rightarrow> Float32Array" where
  "samplesOf pcmData = map (\<lambda>w. real_of_int (sint w) / 32768) (int16View pcmData)"

text \<open>Readings of a trace: the render starts in order, the number of \<^verbatim>\<open>ended\<close>
  notifications, the number of interrupt signals, the outbound frames, and the number
  of sources that have been started and have not ended yet.\<close>

fun renderStarts :: "effect list \<Rightarrow> Float32Array list" where
  "renderStarts [] = []"
| "renderStarts (SourceStart samples # tr) = samples # renderStarts tr"
| "renderStarts (x # tr) = renderStarts tr"

fun endedCount :: "effect list \<Rightarrow> nat" where
  "endedCount [] = 0"
| "endedCount (SourceEnded # tr) = Suc (endedCount tr)"
| "endedCount (x # tr) = endedCount tr"

fun interruptCount :: "effect list \<Rightarrow> nat" where
  "interruptCount [] = 0"
| "interruptCount (OnInterrupt # tr) = Suc (interruptCount tr)"
| "interruptCount (x # tr) = interruptCount tr"

fun flushes :: "effect list \<Rightarrow> Uint8Array list" where
  "flushes [] = []"
| "flushes (InputCallback bytes # tr) = bytes # flushes tr"
| "flushes (x # tr) = flushes tr"

definition rendering :: "effect list \<Rightarrow> int" where
  "rendering tr = int (length (renderStarts tr)) - int (endedCount tr)"

text \<open>A schedule the device can produce: \<^verbatim>\<open>ended\<close> is only reported for a source
  that was started and has not ended.\<close>

fun feasible :: "event list \<Rightarrow> AudioInterface \<times> effect list \<Rightarrow> bool" where
  "feasible [] st = True"
| "feasible (Ended dev # es) st = (rendering (snd st) > 0 \<and> feasible es (exec (Ended dev) st))"
| "feasible (e # es) st = feasible es (exec e st)"

text \<open>Playback without interrupt and without failure: chunks of 16 bit PCM are
  enqueued, sources end, and the device accepts every chunk.\<close>

fun plainPlayback :: "event \<Rightarrow> bool" where
  "plainPlayback (Play audioData dev) = (dev = DeviceOk \<and> even (length audioData))"
| "plainPlayback (Ended dev) = (dev = DeviceOk)"
| "plainPlayback e = False"

text \<open>The events that raise the playback-active flag: a chunk handed to \<^verbatim>\<open>play\<close>
  and \<^verbatim>\<open>setAudioPlaybackState(true)\<close>.\<close>

fun raisesFlag :: "event \<Rightarrow> bool" where
  "raisesFlag (Play audioData dev) = True"
| "raisesFlag (SetAudioPlaybackState b) = b"
| "raisesFlag e = False"

text \<open>The entry readings of the clock (\<^verbatim>\<open>currentTime\<close>) of the capture steps of a
  run that sent an outbound frame.\<close>

fun flushTimes :: "event list \<Rightarrow> AudioInterface \<Rightarrow> int list" where
  "flushTimes [] s = []"
| "flushTimes (AudioProcess t0 t1 t2 audioData # es) s =
     (let (s1, out) = step (AudioProcess t0 t1 t2 audioData) s
      in (if flushes out \<noteq> [] then [t0] else []) @ flushTimes es s1)"
| "flushTimes (e # es) s = flushTimes es (fst (step e s))"

text \<open>A capture stream whose callbacks take no time: frame \<open>k\<close> of the list arrives
  \<open>period\<close> ms after frame \<open>k - 1\<close>, and all three clock readings of a callback agree.\<close>

fun captureStream :: "int \<Rightarrow> int \<Rightarrow> Float32Array list \<Rightarrow> event list" where
  "captureStream t period [] = []"
| "captureStream t period (f # fs) = AudioProcess t t t f # captureStream (t + period) period fs"

subsection \<open>The socket\<close>

datatype readyState = CONNECTING | OPEN | CLOSING | CLOSED

datatype frame = BinaryFrame Uint8Array | TextFrame string

text \<open>\<open>websocket\<close> is \<open>None\<close> for \<^verbatim>\<open>null\<close>, else the ready state of the socket
  object; \<open>wire\<close> lists what was passed to \<^verbatim>\<open>websocket.send\<close>.\<close>

record WebSocketManager =
  websocket :: "readyState option"
  ws_isRunning :: bool
  wire :: "frame list"

text \<open>What the network answers to \<^verbatim>\<open>new WebSocket(url)\<close>.\<close>

datatype socket_env = SocketOpens | SocketErrors | ConstructorThrows js_error

definition newWebSocketManager :: WebSocketManager where
  "newWebSocketManager = \<lparr> websocket = None, ws_isRunning = False, wire = [] \<rparr>"

definition connect :: "socket_env \<Rightarrow> WebSocketManager \<Rightarrow> WebSocketManager \<times> js_error option" where
  "connect env ws =
     (if websocket ws \<noteq> None then (ws, None)
      else case env of
        ConstructorThrows e \<Rightarrow> (ws, Some e)
      | SocketOpens \<Rightarrow> (ws\<lparr>websocket := Some OPEN, ws_isRunning := True\<rparr>, None)
      | SocketErrors \<Rightarrow>
          (ws\<lparr>websocket := Some CLOSED, ws_isRunning := False\<rparr>, Some NonErrorValue))"

definition sendAudioData :: "Uint8Array \<Rightarrow> WebSocketManager \<Rightarrow> WebSocketManager" where
  "sendAudioData audioData ws =
     (if websocket ws = Some OPEN \<and> ws_isRunning ws
      then ws\<lparr>wire := wire ws @ [BinaryFrame audioData]\<rparr>
      else ws)"

definition sendInterrupt :: "WebSocketManager \<Rightarrow> WebSocketManager" where
  "sendInterrupt ws =
     (if websocket ws = Some OPEN \<and> ws_isRunning ws
      then ws\<lparr>wire := wire ws @ [TextFrame ''interrupt'']\<rparr>
      else ws)"

definition disconnect :: "WebSocketManager \<Rightarrow> WebSocketManager" where
  "disconnect ws = ws\<lparr>ws_isRunning := False, websocket := None\<rparr>"

definition ws_isConnected :: "WebSocketManager \<Rightarrow> bool" where
  "ws_isConnected ws = (websocket ws = Some OPEN \<and> ws_isRunning ws)"

subsection \<open>The conversation manager\<close>

record ConversationState =
  isConnected :: bool
  isRecording :: bool
  isPlaying :: bool
  currentAmplitude :: real
  error :: "string option"

text \<open>\<open>published\<close> lists the snapshots passed to \<^verbatim>\<open>stateChangeCallback\<close>.\<close>

record ConversationManager =
  audioInterface :: AudioInterface
  webSocketManager :: WebSocketManager
  cm_isRunning :: bool
  state :: ConversationState
  stateChangeCallback :: bool
  published :: "ConversationState list"

definition newConversationManager :: "int \<Rightarrow> bool \<Rightarrow> ConversationManager" where
  "newConversationManager now callback =
     \<lparr> audioInterface = newAudioInterface now True True,
       webSocketManager = newWebSocketManager,
       cm_isRunning = False,
       state = \<lparr> isConnected = False, isRecording = False, isPlaying = False,
                 currentAmplitude = 0, error = None \<rparr>,
       stateChangeCallback = callback,
       published = [] \<rparr>"

definition updateState ::
  "(ConversationState \<Rightarrow> ConversationState) \<Rightarrow> ConversationManager \<Rightarrow> ConversationManager" where
  "updateState updates cm =
     (let st = updates (state cm)
      in cm\<lparr>state := st,
            published := (if stateChangeCallback cm then published cm @ [st]
                          else published cm)\<rparr>)"

definition onAudioInput :: "Uint8Array \<Rightarrow> ConversationManager \<Rightarrow> ConversationManager" where
  "onAudioInput audioData cm =
     cm\<lparr>webSocketManager := sendAudioData audioData (webSocketManager cm)\<rparr>"

definition onAmplitudeChange :: "real \<Rightarrow> ConversationManager \<Rightarrow> ConversationManager" where
  "onAmplitudeChange amplitude cm = updateState (\<lambda>st. st\<lparr>currentAmplitude := amplitude\<rparr>) cm"

definition onInterrupt :: "ConversationManager \<Rightarrow> ConversationManager" where
  "onInterrupt cm = cm\<lparr>webSocketManager := sendInterrupt (webSocketManager cm)\<rparr>"

definition stopConversation :: "ConversationManager \<Rightarrow> ConversationManager" where
  "stopConversation cm =
     (if \<not> cm_isRunning cm then cm
      else (let cm1 = cm\<lparr>cm_isRunning := False\<rparr>;
                cm2 = cm1\<lparr>audioInterface := fst (stop (audioInterface cm1))\<rparr>;
                cm3 = cm2\<lparr>webSocketManager := disconnect (webSocketManager cm2)\<rparr>
            in updateState (\<lambda>st. st\<lparr>isConnected := False, isRecording := False,
                 isPlaying := False, currentAmplitude := 0, error := None\<rparr>) cm3))"

text \<open>The \<^verbatim>\<open>catch\<close> block of \<^verbatim>\<open>startConversation\<close>.\<close>

definition startFailed ::
  "js_error \<Rightarrow> ConversationManager \<Rightarrow> ConversationManager \<times> js_error option" where
  "startFailed e cm =
     (let errorMessage = (case e of JsError m \<Rightarrow> m | NonErrorValue \<Rightarrow> ''Unknown error'');
          cm1 = updateState (\<lambda>st. st\<lparr>error := Some (''Failed to start conversation: '' @ errorMessage),
                  isConnected := False, isRecording := False\<rparr>) cm
      in (stopConversation cm1, Some e))"

text \<open>\<^verbatim>\<open>startConversation\<close>, with the answers of the network and of the audio
  subsystem; the second component is the value the returned promise rejects with.\<close>

definition startConversation ::
  "socket_env \<Rightarrow> audio_env \<Rightarrow> ConversationManager \<Rightarrow> ConversationManager \<times> js_error option" where
  "startConversation net audio cm =
     (if cm_isRunning cm then (cm, None)
      else (let cm1 = updateState (\<lambda>st. st\<lparr>error := None\<rparr>) cm;
                (ws, rejected) = connect net (webSocketManager cm1);
                cm2 = cm1\<lparr>webSocketManager := ws\<rparr>
            in case rejected of
                 Some e \<Rightarrow> startFailed e cm2
               | None \<Rightarrow>
                   (let cm3 = updateState (\<lambda>st. st\<lparr>isConnected := True\<rparr>) cm2;
                        (ai, out) = start audio (audioInterface cm3);
                        cm4 = cm3\<lparr>audioInterface := ai\<rparr>
                    in case raised out of
                         Some e \<Rightarrow> startFailed e cm4
                       | None \<Rightarrow>
                           ((updateState (\<lambda>st. st\<lparr>isRecording := True\<rparr>) cm4)
                              \<lparr>cm_isRunning := True\<rparr>, None))))"

text \<open>The callbacks the constructor binds into the audio interface.\<close>

fun dispatch :: "ConversationManager \<Rightarrow> effect \<Rightarrow> ConversationManager" where
  "dispatch cm (AmplitudeCallback amplitude) = onAmplitudeChange amplitude cm"
| "dispatch cm OnInterrupt = onInterrupt cm"
| "dispatch cm (InputCallback audioData) = onAudioInput audioData cm"
| "dispatch cm x = cm"

text \<open>A capture buffer arrives at the audio interface of a conversation manager.\<close>

definition captureFrame ::
  "int \<Rightarrow> int \<Rightarrow> int \<Rightarrow> Float32Array \<Rightarrow> ConversationManager \<Rightarrow> ConversationManager" where
  "captureFrame currentTime now1 now2 audioData cm =
     (let (ai, out) = onaudioprocess currentTime now1 now2 audioData (audioInterface cm)
      in foldl dispatch (cm\<lparr>audioInterface := ai\<rparr>) out)"

text \<open>A binary message arrives on the socket: \<^verbatim>\<open>handleWebSocketMessage\<close> hands it to
  \<^verbatim>\<open>play\<close> and swallows whatever \<^verbatim>\<open>play\<close> throws.\<close>

definition binaryMessage ::
  "Uint8Array \<Rightarrow> device \<Rightarrow> ConversationManager \<Rightarrow> ConversationManager" where
  "binaryMessage audioData dev cm =
     cm\<lparr>audioInterface := fst (play audioData dev (audioInterface cm))\<rparr>"

text \<open>A step of a run in which no speech arrives: any event but a capture buffer whose
  reported RMS reaches the silence threshold.\<close>

fun quietEvent :: "event \<Rightarrow> bool" where
  "quietEvent (AudioProcess t0 t1 t2 audioData) = (calculateRMS audioData < silenceThreshold)"
| "quietEvent e = True"

text \<open>The invariant of playback without interrupt and failure, for the chunks \<open>cs\<close>
  received so far: the chunks rendered and the chunks waiting are \<open>cs\<close>, in order;
  while playing exactly one source is rendering; when idle none is and none waits.\<close>

definition playbackInv :: "Uint8Array list \<Rightarrow> AudioInterface \<times> effect list \<Rightarrow> bool" where
  "playbackInv cs st =
     (outputAudioContext (fst st)
      \<and> renderStarts (snd st) @ map samplesOf (outputQueue (fst st)) = map samplesOf cs
      \<and> list_all (\<lambda>c. even (length c)) (outputQueue (fst st))
      \<and> (if isOutputPlaying (fst st) then rendering (snd st) = 1
          else rendering (snd st) = 0 \<and> outputQueue (fst st) = []))"

section \<open>Properties\<close>

subsection \<open>Voice activity detection\<close>

lemma sumSquares_foldl: "foldl (\<lambda>sum x. sum + x * x) a xs = a + sum_list (map (\<lambda>x. x * x) xs)" for a :: real
  by (induction xs arbitrary: a) simp_all

lemma sumSquares_sum_list: "sumSquares xs = sum_list (map (\<lambda>x. x * x) xs)"
  by (simp add: sumSquares_def sumSquares_foldl)

lemma sumSquares_replicate: "sumSquares (replicate n x) = real n * (x * x)"
  by (simp add: sumSquares_sum_list sum_list_replicate)

lemma rawRMS_replicate: "0 < n \<Longrightarrow> rawRMS (replicate n x) = \<bar>x\<bar>"
  by (simp add: rawRMS_def sumSquares_replicate)

lemma rawRMS_single: "rawRMS [x] = \<bar>x\<bar>"
  using rawRMS_replicate [of 1 x] by simp

lemma isSpeech_iff: "isSpeech f \<longleftrightarrow> rawRMS f \<ge> 2 / 100"
  by (simp add: isSpeech_def calculateRMS_def silenceThreshold_def Let_def)

lemma calculateRMS_cases: "calculateRMS f = 0 \<or> calculateRMS f \<ge> 2 / 100"
  by (simp add: calculateRMS_def Let_def)

text \<open>
  Claim C10. A capture frame is classified as speech exactly when its raw (unclamped) RMS
  is at least 0.02. The RMS that \<^verbatim>\<open>calculateRMS\<close> reports is never strictly between 0
  and 0.02, so the silence threshold 0.01 does not discriminate: any threshold from 0 up
  to (but excluding) 0.02 classifies every frame as 0.01 does.
\<close>

theorem C10_speech_iff_raw_rms_at_least_noise_floor:
  "(isSpeech f \<longleftrightarrow> rawRMS f \<ge> 2 / 100)
   \<and> \<not> (0 < calculateRMS f \<and> calculateRMS f < 2 / 100)
   \<and> (\<forall>\<theta>. 0 \<le> \<theta> \<and> \<theta> < 2 / 100 \<longrightarrow> (calculateRMS f > \<theta> \<longleftrightarrow> isSpeech f))"
proof -
  have a: "isSpeech f \<longleftrightarrow> rawRMS f \<ge> 2 / 100" by (rule isSpeech_iff)
  have b: "\<not> (0 < calculateRMS f \<and> calculateRMS f < 2 / 100)"
    using calculateRMS_cases [of f] by auto
  have c: "calculateRMS f > \<theta> \<longleftrightarrow> isSpeech f" if "0 \<le> \<theta>" "\<theta> < 2 / 100" for \<theta>
    using that calculateRMS_cases [of f] by (auto simp: isSpeech_def silenceThreshold_def)
  from a b c show ?thesis by blast
qed

text \<open>C10 at a loud frame (1024 samples of 0.1) and at a faint one (1024 samples of
  0.01), with the threshold 0.005.\<close>

theorem C10_witness:
  "isSpeech (replicate 1024 (1 / 10)) \<and> calculateRMS (replicate 1024 (1 / 10)) > 1 / 200
   \<and> \<not> isSpeech (replicate 1024 (1 / 100)) \<and> \<not> calculateRMS (replicate 1024 (1 / 100)) > 1 / 200"
proof -
  have r1: "rawRMS (replicate 1024 (1 / 10)) = 1 / 10"
    by (simp add: rawRMS_replicate)
  have r2: "rawRMS (replicate 1024 (1 / 100)) = 1 / 100"
    by (simp add: rawRMS_replicate)
  note loud = C10_speech_iff_raw_rms_at_least_noise_floor [of "replicate 1024 (1 / 10)"]
  note quiet = C10_speech_iff_raw_rms_at_least_noise_floor [of "replicate 1024 (1 / 100)"]
  have s1: "isSpeech (replicate 1024 (1 / 10))"
    using loud r1 by simp
  have s2: "\<not> isSpeech (replicate 1024 (1 / 100))"
    using quiet r2 by simp
  have h: "(0::real) \<le> 1 / 200 \<and> (1::real) / 200 < 2 / 100" by simp
  from loud have "calculateRMS (replicate 1024 (1 / 10)) > 1 / 200 \<longleftrightarrow> isSpeech (replicate 1024 (1 / 10))"
    using h by blast
  moreover from quiet have "calculateRMS (replicate 1024 (1 / 100)) > 1 / 200 \<longleftrightarrow> isSpeech (replicate 1024 (1 / 100))"
    using h by blast
  ultimately show ?thesis using s1 s2 by blast
qed

lemma shouldSendAudio_iff:
  "shouldSendAudio now s \<longleftrightarrow> (\<exists>t. lastSpeechTime s = Some t \<and> now - t < 2000)"
  by (simp add: shouldSendAudio_def silenceTimeout_def split: option.splits)

lemma not_speech_if_quiet: "calculateRMS f < 1 / 100 \<Longrightarrow> \<not> isSpeech f"
  by (simp add: isSpeech_def silenceThreshold_def)

lemma lastSpeechTime_checkForSpeech:
  "lastSpeechTime (fst (checkForSpeech t0 f s)) = (if isSpeech f then Some t0 else lastSpeechTime s)"
  by (simp add: checkForSpeech_def Let_def)

lemma lastSpeechTime_bufferAudio [simp]: "lastSpeechTime (bufferAudio now f s) = lastSpeechTime s"
  by (simp add: bufferAudio_def)

lemma lastSpeechTime_sendBatched [simp]: "lastSpeechTime (fst (sendBatched t0 now s)) = lastSpeechTime s"
  by (simp add: sendBatched_def)

lemma lastSpeechTime_processAudioData:
  "lastSpeechTime (fst (processAudioData t0 t1 t2 f s)) = (if isSpeech f then Some t0 else lastSpeechTime s)"
  by (simp add: processAudioData_def Let_def split_beta lastSpeechTime_checkForSpeech)

lemma calculateRMS_replicate:
  "calculateRMS (replicate n x) = (if 0 < n \<and> 2 / 100 \<le> \<bar>x\<bar> then \<bar>x\<bar> else 0)"
proof (cases "n = 0")
  case True
  then show ?thesis
    by (simp add: calculateRMS_def Let_def rawRMS_def sumSquares_def)
next
  case False
  then have "rawRMS (replicate n x) = \<bar>x\<bar>"
    by (simp add: rawRMS_replicate)
  with False show ?thesis
    by (simp add: calculateRMS_def Let_def)
qed

lemma isSpeech_replicate: "isSpeech (replicate n x) \<longleftrightarrow> 0 < n \<and> 2 / 100 \<le> \<bar>x\<bar>"
  by (auto simp: isSpeech_def calculateRMS_replicate silenceThreshold_def)

subsection \<open>Runs\<close>

lemma run_Nil [simp]: "run [] st = st"
  by (simp add: run_def)

lemma run_Cons [simp]: "run (e # es) st = run es (exec e st)"
  by (simp add: run_def)

lemma run_append: "run (es @ es') st = run es' (run es st)"
  by (simp add: run_def)

lemma fst_exec: "fst (exec e st) = fst (step e (fst st))"
  by (simp add: exec_def split_beta)

lemma snd_exec: "snd (exec e st) = snd st @ snd (step e (fst st))"
  by (simp add: exec_def split_beta)

subsection \<open>The last speech time\<close>

lemma lastSpeechTime_playNextOutputChunk [simp]:
  "lastSpeechTime (fst (playNextOutputChunk dev s)) = lastSpeechTime s"
  by (simp add: playNextOutputChunk_def Let_def split: list.splits sum.splits device.splits)

lemma lastSpeechTime_play [simp]: "lastSpeechTime (fst (play c dev s)) = lastSpeechTime s"
  by (simp add: play_def Let_def)

lemma lastSpeechTime_start [simp]: "lastSpeechTime (fst (start env s)) = lastSpeechTime s"
  by (simp add: start_def split: audio_env.splits)

lemma lastSpeechTime_step:
  "quietEvent e \<Longrightarrow> lastSpeechTime (fst (step e s)) = lastSpeechTime s"
  by (cases e)
    (simp_all add: onaudioprocess_def lastSpeechTime_processAudioData isSpeech_def
      split_beta setAudioPlaybackState_def interruptPlayback_def stop_def)

lemma lastSpeechTime_run:
  "list_all quietEvent es \<Longrightarrow> lastSpeechTime (fst (run es st)) = lastSpeechTime (fst st)"
  by (induction es arbitrary: st) (simp_all add: fst_exec lastSpeechTime_step)

lemma shouldSendAudio_mono:
  "\<not> shouldSendAudio t s \<Longrightarrow> t \<le> t' \<Longrightarrow> lastSpeechTime s' = lastSpeechTime s \<Longrightarrow> \<not> shouldSendAudio t' s'"
  by (auto simp: shouldSendAudio_def split: option.splits)

text \<open>
  Claim C7. "Should transmit" holds exactly when the last-speech timestamp is set and
  less than 2000 ms have passed since. A capture frame whose reported RMS is below 0.01
  leaves the timestamp as it was, so with a clock that does not run backwards "should
  transmit" does not go from false to true across such a frame, nor across any run of
  events whose capture frames are all of this kind.
\<close>

theorem C7_should_transmit_window:
  "(shouldSendAudio now s \<longleftrightarrow> (\<exists>t. lastSpeechTime s = Some t \<and> now - t < 2000))
   \<and> (calculateRMS f < 1 / 100 \<longrightarrow>
        lastSpeechTime (fst (processAudioData t0 t1 t2 f s)) = lastSpeechTime s)
   \<and> (calculateRMS f < 1 / 100 \<and> \<not> shouldSendAudio t s \<and> t \<le> t' \<longrightarrow>
        \<not> shouldSendAudio t' (fst (processAudioData t0 t1 t2 f s)))
   \<and> (list_all quietEvent es \<and> \<not> shouldSendAudio t s \<and> t \<le> t' \<longrightarrow>
        \<not> shouldSendAudio t' (fst (run es (s, tr))))"
proof -
  have a: "shouldSendAudio now s \<longleftrightarrow> (\<exists>t. lastSpeechTime s = Some t \<and> now - t < 2000)"
    by (rule shouldSendAudio_iff)
  have b: "lastSpeechTime (fst (processAudioData t0 t1 t2 f s)) = lastSpeechTime s"
    if "calculateRMS f < 1 / 100"
    using that by (simp add: lastSpeechTime_processAudioData not_speech_if_quiet)
  have c: "\<not> shouldSendAudio t' (fst (processAudioData t0 t1 t2 f s))"
    if "calculateRMS f < 1 / 100" "\<not> shouldSendAudio t s" "t \<le> t'"
    using shouldSendAudio_mono [OF that(2) that(3) b [OF that(1)]] .
  have d: "\<not> shouldSendAudio t' (fst (run es (s, tr)))"
    if "list_all quietEvent es" "\<not> shouldSendAudio t s" "t \<le> t'"
  proof -
    have "lastSpeechTime (fst (run es (s, tr))) = lastSpeechTime s"
      using lastSpeechTime_run [OF that(1), of "(s, tr)"] by simp
    then show ?thesis
      using shouldSendAudio_mono [OF that(2) that(3)] by blast
  qed
  from a b c d show ?thesis by blast
qed


text \<open>C7 at a session whose last speech was at 1000 ms: the window is open at 2999 ms,
  closed at 3000 ms, and silent frames at 3000 ms and 3064 ms leave it closed.\<close>

theorem C7_witness:
  "calculateRMS (replicate 1024 0) < 1 / 100
   \<and> shouldSendAudio 2999 ((newAudioInterface 0 True True)\<lparr>isRunning := True, lastSpeechTime := Some 1000\<rparr>)
   \<and> \<not> shouldSendAudio 3000 ((newAudioInterface 0 True True)\<lparr>isRunning := True, lastSpeechTime := Some 1000\<rparr>)
   \<and> \<not> shouldSendAudio 3064 (fst (processAudioData 3000 3000 3000 (replicate 1024 0)
         ((newAudioInterface 0 True True)\<lparr>isRunning := True, lastSpeechTime := Some 1000\<rparr>)))
   \<and> list_all quietEvent (captureStream 3000 64 [replicate 1024 0, replicate 1024 0])
   \<and> \<not> shouldSendAudio 3064 (fst (run (captureStream 3000 64 [replicate 1024 0, replicate 1024 0])
         ((newAudioInterface 0 True True)\<lparr>isRunning := True, lastSpeechTime := Some 1000\<rparr>, [])))"
proof -
  let ?s = "(newAudioInterface 0 True True)\<lparr>isRunning := True, lastSpeechTime := Some 1000\<rparr>"
  let ?f = "replicate 1024 (0::real)"
  let ?es = "captureStream 3000 64 [?f, ?f]"
  have h1: "calculateRMS ?f < 1 / 100"
    by (simp add: calculateRMS_replicate)
  have h2: "\<not> shouldSendAudio 3000 ?s"
    by (simp add: shouldSendAudio_def silenceTimeout_def newAudioInterface_def)
  have h3: "shouldSendAudio 2999 ?s"
    by (simp add: shouldSendAudio_def silenceTimeout_def newAudioInterface_def)
  have h4: "list_all quietEvent ?es"
    by (simp add: calculateRMS_replicate silenceThreshold_def)
  have h5: "(3000::int) \<le> 3064" by simp
  note c7 = C7_should_transmit_window [of 2999 ?s ?f 3000 3000 3000 3000 3064 ?es "[]"]
  from c7 h1 h2 h5 have a: "\<not> shouldSendAudio 3064 (fst (processAudioData 3000 3000 3000 ?f ?s))"
    by blast
  from c7 h4 h2 h5 have b: "\<not> shouldSendAudio 3064 (fst (run ?es (?s, [])))"
    by blast
  from h1 h2 h3 h4 a b show ?thesis by blast
qed

subsection \<open>Flushing the capture buffer\<close>

lemma flushes_append [simp]: "flushes (xs @ ys) = flushes xs @ flushes ys"
  by (induction xs rule: flushes.induct) simp_all

lemma flushes_checkForSpeech [simp]: "flushes (snd (checkForSpeech t0 f s)) = []"
  by (simp add: checkForSpeech_def Let_def)

lemma lastSendTime_checkForSpeech [simp]: "lastSendTime (fst (checkForSpeech t0 f s)) = lastSendTime s"
  by (simp add: checkForSpeech_def Let_def)

lemma lastSendTime_bufferAudio [simp]: "lastSendTime (bufferAudio now f s) = lastSendTime s"
  by (simp add: bufferAudio_def)

lemma shouldSendAudio_bufferAudio [simp]:
  "shouldSendAudio now (bufferAudio now' f s) = shouldSendAudio now s"
  by (simp add: shouldSendAudio_def)

lemma flushes_processAudioData:
  "flushes (snd (processAudioData t0 t1 t2 f s)) =
     (if sendDue t0 t2 (bufferAudio t1 f (fst (checkForSpeech t0 f s)))
      then [concat (audioBufferParts (bufferAudio t1 f (fst (checkForSpeech t0 f s))))]
      else [])"
  by (simp add: processAudioData_def Let_def split_beta sendBatched_def)

lemma sendDue_after_buffering:
  "sendDue t0 t2 (bufferAudio t1 f (fst (checkForSpeech t0 f s))) \<longleftrightarrow>
     t0 - lastSendTime s \<ge> 500
     \<and> audioBufferParts (bufferAudio t1 f (fst (checkForSpeech t0 f s))) \<noteq> []
     \<and> shouldSendAudio t2 (fst (checkForSpeech t0 f s))"
  by (simp add: sendDue_def sendInterval_def)

lemma state_after_processAudioData:
  "lastSendTime (fst (processAudioData t0 t1 t2 f s)) =
     (if flushes (snd (processAudioData t0 t1 t2 f s)) \<noteq> [] then t0 else lastSendTime s)"
  "audioBufferParts (fst (processAudioData t0 t1 t2 f s)) =
     (if flushes (snd (processAudioData t0 t1 t2 f s)) \<noteq> [] then []
      else audioBufferParts (bufferAudio t1 f (fst (checkForSpeech t0 f s))))"
  by (simp_all add: processAudioData_def Let_def split_beta sendBatched_def)

lemma lastSendTime_playNextOutputChunk [simp]:
  "lastSendTime (fst (playNextOutputChunk dev s)) = lastSendTime s"
  by (simp add: playNextOutputChunk_def Let_def split: list.splits sum.splits device.splits)

lemma lastSendTime_play [simp]: "lastSendTime (fst (play c dev s)) = lastSendTime s"
  by (simp add: play_def Let_def)

lemma lastSendTime_start [simp]: "lastSendTime (fst (start env s)) = lastSendTime s"
  by (simp add: start_def split: audio_env.splits)

lemma lastSendTime_step_other:
  "\<forall>t0 t1 t2 f. e \<noteq> AudioProcess t0 t1 t2 f \<Longrightarrow> lastSendTime (fst (step e s)) = lastSendTime s"
  by (cases e)
    (simp_all add: split_beta setAudioPlaybackState_def interruptPlayback_def stop_def)

lemma flush_step:
  "flushes (snd (step (AudioProcess t0 t1 t2 f) s)) \<noteq> [] \<Longrightarrow>
     lastSendTime s + 500 \<le> t0 \<and> lastSendTime (fst (step (AudioProcess t0 t1 t2 f) s)) = t0"
  by (auto simp: onaudioprocess_def state_after_processAudioData flushes_processAudioData
      sendDue_after_buffering split: if_splits)

lemma no_flush_step:
  "flushes (snd (step (AudioProcess t0 t1 t2 f) s)) = [] \<Longrightarrow>
     lastSendTime (fst (step (AudioProcess t0 t1 t2 f) s)) = lastSendTime s"
  by (auto simp: onaudioprocess_def state_after_processAudioData split: if_splits)

lemma flushTimes_spaced:
  "sorted_wrt (\<lambda>a b. a + 500 \<le> b) (flushTimes es s)
   \<and> list_all (\<lambda>t. lastSendTime s + 500 \<le> t) (flushTimes es s)"
proof (induction es s rule: flushTimes.induct)
  case (1 s)
  show ?case by simp
next
  case (2 t0 t1 t2 audioData es s)
  let ?st = "step (AudioProcess t0 t1 t2 audioData) s"
  have ih: "sorted_wrt (\<lambda>a b. a + 500 \<le> b) (flushTimes es (fst ?st))
     \<and> list_all (\<lambda>t. lastSendTime (fst ?st) + 500 \<le> t) (flushTimes es (fst ?st))"
    by (rule "2.IH" [OF refl prod.collapse])
  show ?case
  proof (cases "flushes (snd ?st) = []")
    case True
    with ih no_flush_step [OF True] show ?thesis
      by (simp add: split_beta)
  next
    case False
    from flush_step [OF False] have a: "lastSendTime s + 500 \<le> t0"
      and b: "lastSendTime (fst ?st) = t0" by simp_all
    from ih b have c: "list_all (\<lambda>t. t0 + 500 \<le> t) (flushTimes es (fst ?st))"
      by simp
    then have d: "list_all (\<lambda>t. lastSendTime s + 500 \<le> t) (flushTimes es (fst ?st))"
      using a by (auto simp: list_all_iff)
    from False ih a c d show ?thesis
      by (simp add: split_beta list_all_iff)
  qed
qed (simp_all add: lastSendTime_step_other del: step.simps)

lemma shouldSendAudio_checkForSpeech:
  "shouldSendAudio t (fst (checkForSpeech t0 f s)) =
     (if isSpeech f then t - t0 < 2000 else shouldSendAudio t s)"
  by (simp add: checkForSpeech_def Let_def shouldSendAudio_def silenceTimeout_def)

lemma sendBatched_empty: "flushes (snd (sendBatched t0 now (s\<lparr>audioBufferParts := []\<rparr>))) = []"
  by (simp add: sendBatched_def sendDue_def)

text \<open>
  Claim C6. A capture step sends an outbound frame exactly when at least 500 ms have
  passed since the last flush (\<^verbatim>\<open>currentTime - lastSendTime\<close>), the capture buffer,
  after this step's frame was appended, is not empty, and "should transmit" holds at the
  step's last reading of the clock. A flush sends the concatenation of the whole buffer,
  empties the buffer and sets the flush timer to \<^verbatim>\<open>currentTime\<close>; with an empty
  buffer the send block does nothing. So in every run the entry times of the steps that
  flush are at least 500 ms apart, and the first is at least 500 ms after the initial
  value of the timer.
\<close>

theorem C6_flush_policy:
  "(flushes (snd (processAudioData t0 t1 t2 f s)) \<noteq> [] \<longleftrightarrow>
      t0 - lastSendTime s \<ge> 500
      \<and> audioBufferParts (bufferAudio t1 f (fst (checkForSpeech t0 f s))) \<noteq> []
      \<and> shouldSendAudio t2 (fst (checkForSpeech t0 f s)))
   \<and> (flushes (snd (processAudioData t0 t1 t2 f s)) \<noteq> [] \<longrightarrow>
        flushes (snd (processAudioData t0 t1 t2 f s)) =
          [concat (audioBufferParts (bufferAudio t1 f (fst (checkForSpeech t0 f s))))]
        \<and> audioBufferParts (fst (processAudioData t0 t1 t2 f s)) = []
        \<and> lastSendTime (fst (processAudioData t0 t1 t2 f s)) = t0)
   \<and> flushes (snd (sendBatched t0 t2 (s\<lparr>audioBufferParts := []\<rparr>))) = []
   \<and> sorted_wrt (\<lambda>a b. a + 500 \<le> b) (flushTimes es s)
   \<and> list_all (\<lambda>t. lastSendTime s + 500 \<le> t) (flushTimes es s)"
proof -
  have a: "flushes (snd (processAudioData t0 t1 t2 f s)) \<noteq> [] \<longleftrightarrow>
      t0 - lastSendTime s \<ge> 500
      \<and> audioBufferParts (bufferAudio t1 f (fst (checkForSpeech t0 f s))) \<noteq> []
      \<and> shouldSendAudio t2 (fst (checkForSpeech t0 f s))"
    by (simp add: flushes_processAudioData sendDue_after_buffering)
  have b: "flushes (snd (processAudioData t0 t1 t2 f s)) =
          [concat (audioBufferParts (bufferAudio t1 f (fst (checkForSpeech t0 f s))))]
        \<and> audioBufferParts (fst (processAudioData t0 t1 t2 f s)) = []
        \<and> lastSendTime (fst (processAudioData t0 t1 t2 f s)) = t0"
    if "flushes (snd (processAudioData t0 t1 t2 f s)) \<noteq> []"
    using that by (simp add: state_after_processAudioData) (simp add: flushes_processAudioData split: if_splits)
  note c = sendBatched_empty [of t0 t2 s]
  note d = flushTimes_spaced [of es s]
  from a b c d show ?thesis by blast
qed

lemmas capture_defs = processAudioData_def checkForSpeech_def bufferAudio_def sendBatched_def
  sendDue_def shouldSendAudio_def onaudioprocess_def silenceTimeout_def sendInterval_def
  interruptThreshold_def silenceThreshold_def isSpeech_replicate calculateRMS_replicate
  newAudioInterface_def Let_def

text \<open>C6 at a fresh interface (timer 0) that hears a loud frame at 1000 ms and then
  eight silent frames, 64 ms apart: it flushes at 1000 ms and at 1512 ms.\<close>

theorem C6_witness:
  "flushes (snd (processAudioData 1000 1000 1000 (replicate 1024 (1 / 10))
       ((newAudioInterface 0 True True)\<lparr>isRunning := True\<rparr>))) =
     [uint8View (float32ArrayToInt16Array (replicate 1024 (1 / 10)))]
   \<and> audioBufferParts (fst (processAudioData 1000 1000 1000 (replicate 1024 (1 / 10))
       ((newAudioInterface 0 True True)\<lparr>isRunning := True\<rparr>))) = []
   \<and> lastSendTime (fst (processAudioData 1000 1000 1000 (replicate 1024 (1 / 10))
       ((newAudioInterface 0 True True)\<lparr>isRunning := True\<rparr>))) = 1000
   \<and> flushTimes (captureStream 1000 64 [replicate 1024 (1 / 10), replicate 1024 0,
        replicate 1024 0, replicate 1024 0, replicate 1024 0, replicate 1024 0,
        replicate 1024 0, replicate 1024 0, replicate 1024 0])
       ((newAudioInterface 0 True True)\<lparr>isRunning := True\<rparr>) = [1000, 1512]
   \<and> sorted_wrt (\<lambda>a b. a + 500 \<le> b) [1000, 1512 :: int]"
proof -
  let ?s = "(newAudioInterface 0 True True)\<lparr>isRunning := True\<rparr>"
  let ?f = "replicate 1024 (1 / 10 :: real)"
  let ?q = "replicate 1024 (0 :: real)"
  let ?es = "captureStream 1000 64 [?f, ?q, ?q, ?q, ?q, ?q, ?q, ?q, ?q]"
  note c6 = C6_flush_policy [of 1000 1000 1000 ?f ?s ?es]
  have h1: "(1000 :: int) - lastSendTime ?s \<ge> 500"
    by (simp add: newAudioInterface_def)
  have h2: "audioBufferParts (bufferAudio 1000 ?f (fst (checkForSpeech 1000 ?f ?s))) \<noteq> []"
    by (simp add: capture_defs)
  have h3: "shouldSendAudio 1000 (fst (checkForSpeech 1000 ?f ?s))"
    by (simp add: capture_defs)
  from c6 h1 h2 h3 have fl: "flushes (snd (processAudioData 1000 1000 1000 ?f ?s)) \<noteq> []"
    by blast
  with c6 have r: "flushes (snd (processAudioData 1000 1000 1000 ?f ?s)) =
          [concat (audioBufferParts (bufferAudio 1000 ?f (fst (checkForSpeech 1000 ?f ?s))))]
        \<and> audioBufferParts (fst (processAudioData 1000 1000 1000 ?f ?s)) = []
        \<and> lastSendTime (fst (processAudioData 1000 1000 1000 ?f ?s)) = 1000"
    by blast
  have p: "concat (audioBufferParts (bufferAudio 1000 ?f (fst (checkForSpeech 1000 ?f ?s)))) =
     uint8View (float32ArrayToInt16Array ?f)"
    by (simp add: capture_defs)
  have ft: "flushTimes ?es ?s = [1000, 1512]"
    by (simp add: capture_defs)
  from c6 have "sorted_wrt (\<lambda>a b. a + 500 \<le> b) (flushTimes ?es ?s)"
    by blast
  with ft have so: "sorted_wrt (\<lambda>a b. a + 500 \<le> b) [1000, 1512 :: int]"
    by simp
  from r p ft so show ?thesis by simp
qed

subsection \<open>The interrupt flag\<close>

lemma interruptCount_append [simp]: "interruptCount (xs @ ys) = interruptCount xs + interruptCount ys"
  by (induction xs rule: interruptCount.induct) simp_all

lemma interruptCount_sendBatched [simp]: "interruptCount (snd (sendBatched t0 now s)) = 0"
  by (simp add: sendBatched_def)

lemma isAudioPlaying_bufferAudio [simp]: "isAudioPlaying (bufferAudio now f s) = isAudioPlaying s"
  by (simp add: bufferAudio_def)

lemma isAudioPlaying_sendBatched [simp]: "isAudioPlaying (fst (sendBatched t0 now s)) = isAudioPlaying s"
  by (simp add: sendBatched_def)

lemma processAudioData_interrupt:
  "interruptCount (snd (processAudioData t0 t1 t2 f s)) =
     (if isSpeech f \<and> isAudioPlaying s \<and> calculateRMS f > interruptThreshold \<and> hasOnInterrupt s
      then 1 else 0)"
  "isAudioPlaying (fst (processAudioData t0 t1 t2 f s)) =
     (isAudioPlaying s \<and> \<not> (isSpeech f \<and> calculateRMS f > interruptThreshold \<and> hasOnInterrupt s))"
  by (auto simp: processAudioData_def checkForSpeech_def Let_def split_beta)

lemma disarmed_playNextOutputChunk:
  "\<not> isAudioPlaying s \<Longrightarrow> \<not> isAudioPlaying (fst (playNextOutputChunk dev s))"
  "interruptCount (snd (playNextOutputChunk dev s)) = 0"
  by (simp_all add: playNextOutputChunk_def Let_def split: list.splits sum.splits device.splits)

lemma disarmed_step:
  "\<not> isAudioPlaying s \<Longrightarrow> \<not> raisesFlag e \<Longrightarrow>
     \<not> isAudioPlaying (fst (step e s)) \<and> interruptCount (snd (step e s)) = 0"
  by (cases e)
    (simp_all add: onaudioprocess_def processAudioData_interrupt split_beta
      disarmed_playNextOutputChunk setAudioPlaybackState_def interruptPlayback_def
      start_def stop_def split: audio_env.splits)

lemma disarmed_run:
  "\<not> isAudioPlaying (fst st) \<Longrightarrow> list_all (\<lambda>e. \<not> raisesFlag e) es \<Longrightarrow>
     \<not> isAudioPlaying (fst (run es st)) \<and> interruptCount (snd (run es st)) = interruptCount (snd st)"
proof (induction es arbitrary: st)
  case Nil
  then show ?case by simp
next
  case (Cons e es)
  from Cons.prems have e: "\<not> raisesFlag e" and es: "list_all (\<lambda>e. \<not> raisesFlag e) es"
    by simp_all
  from disarmed_step [OF Cons.prems(1) e]
  have a: "\<not> isAudioPlaying (fst (exec e st))"
    and b: "interruptCount (snd (exec e st)) = interruptCount (snd st)"
    by (simp_all add: fst_exec snd_exec)
  from Cons.IH [OF a es] b show ?case by simp
qed

lemma play_raises_flag: "outputAudioContext s \<Longrightarrow> isAudioPlaying (fst (play c dev s))"
  by (simp add: play_def playNextOutputChunk_def Let_def split: list.splits sum.splits device.splits)

text \<open>
  Claim C5. When a speech frame with RMS above 0.05 arrives while the playback-active
  flag is raised, one interrupt signal is given and the flag is lowered. Whatever happens
  next (further capture frames, however loud, sources ending, \<^verbatim>\<open>interruptPlayback\<close>,
  \<^verbatim>\<open>stop\<close>, \<^verbatim>\<open>start\<close>, \<^verbatim>\<open>setAudioPlaybackState(false)\<close>), no second interrupt
  signal is given as long as no chunk is handed to \<^verbatim>\<open>play\<close> and
  \<^verbatim>\<open>setAudioPlaybackState(true)\<close> is not called. Those two raise the flag again
  (\<^verbatim>\<open>play\<close> when the output context exists; without it \<^verbatim>\<open>play\<close> drops the chunk).
\<close>

theorem C5_disarmed_until_playback_active_again:
  assumes "isSpeech f" and "calculateRMS f > 5 / 100" and "isAudioPlaying s"
    and "hasOnInterrupt s" and "list_all (\<lambda>e. \<not> raisesFlag e) es"
  shows "interruptCount (snd (processAudioData t0 t1 t2 f s)) = 1
    \<and> \<not> isAudioPlaying (fst (processAudioData t0 t1 t2 f s))
    \<and> interruptCount (snd (run es (processAudioData t0 t1 t2 f s))) = 1
    \<and> \<not> isAudioPlaying (fst (run es (processAudioData t0 t1 t2 f s)))
    \<and> isAudioPlaying (fst (step (SetAudioPlaybackState True)
          (fst (run es (processAudioData t0 t1 t2 f s)))))
    \<and> (if outputAudioContext (fst (run es (processAudioData t0 t1 t2 f s)))
        then isAudioPlaying (fst (step (Play c dev) (fst (run es (processAudioData t0 t1 t2 f s)))))
        else \<not> isAudioPlaying (fst (step (Play c dev) (fst (run es (processAudioData t0 t1 t2 f s))))))"
proof -
  let ?st = "processAudioData t0 t1 t2 f s"
  from assms have a: "interruptCount (snd ?st) = 1" and b: "\<not> isAudioPlaying (fst ?st)"
    by (simp_all add: processAudioData_interrupt interruptThreshold_def)
  from disarmed_run [OF b assms(5)] a
  have c: "interruptCount (snd (run es ?st)) = 1" and d: "\<not> isAudioPlaying (fst (run es ?st))"
    by simp_all
  have e: "isAudioPlaying (fst (step (SetAudioPlaybackState True) (fst (run es ?st))))"
    by (simp add: setAudioPlaybackState_def)
  have g: "if outputAudioContext (fst (run es ?st))
        then isAudioPlaying (fst (step (Play c dev) (fst (run es ?st))))
        else \<not> isAudioPlaying (fst (step (Play c dev) (fst (run es ?st))))"
    using d by (simp add: play_raises_flag) (simp add: play_def)
  from a b c d e g show ?thesis by blast
qed

text \<open>C5 at an interface that is playing: a loud frame at 1000 ms gives the one interrupt
  signal; a second loud frame, a source ending, \<^verbatim>\<open>setAudioPlaybackState(false)\<close> and a
  third loud frame give no other.\<close>

theorem C5_witness:
  "isSpeech (replicate 1024 (1 / 10)) \<and> calculateRMS (replicate 1024 (1 / 10)) > 5 / 100
   \<and> isAudioPlaying ((newAudioInterface 0 True True)
        \<lparr>isRunning := True, outputAudioContext := True, isAudioPlaying := True\<rparr>)
   \<and> hasOnInterrupt ((newAudioInterface 0 True True)
        \<lparr>isRunning := True, outputAudioContext := True, isAudioPlaying := True\<rparr>)
   \<and> list_all (\<lambda>e. \<not> raisesFlag e)
        [AudioProcess 1064 1064 1064 (replicate 1024 (1 / 10)), Ended DeviceOk,
         SetAudioPlaybackState False, AudioProcess 1128 1128 1128 (replicate 1024 (1 / 10))]
   \<and> interruptCount (snd (processAudioData 1000 1000 1000 (replicate 1024 (1 / 10))
        ((newAudioInterface 0 True True)
          \<lparr>isRunning := True, outputAudioContext := True, isAudioPlaying := True\<rparr>))) = 1
   \<and> interruptCount (snd (run
        [AudioProcess 1064 1064 1064 (replicate 1024 (1 / 10)), Ended DeviceOk,
         SetAudioPlaybackState False, AudioProcess 1128 1128 1128 (replicate 1024 (1 / 10))]
        (processAudioData 1000 1000 1000 (replicate 1024 (1 / 10))
          ((newAudioInterface 0 True True)
            \<lparr>isRunning := True, outputAudioContext := True, isAudioPlaying := True\<rparr>)))) = 1"
proof -
  let ?s = "(newAudioInterface 0 True True)
        \<lparr>isRunning := True, outputAudioContext := True, isAudioPlaying := True\<rparr>"
  let ?f = "replicate 1024 (1 / 10 :: real)"
  let ?es = "[AudioProcess 1064 1064 1064 ?f, Ended DeviceOk,
         SetAudioPlaybackState False, AudioProcess 1128 1128 1128 ?f]"
  have h1: "isSpeech ?f" by (simp add: isSpeech_replicate)
  have h2: "calculateRMS ?f > 5 / 100" by (simp add: calculateRMS_replicate)
  have h3: "isAudioPlaying ?s" by simp
  have h4: "hasOnInterrupt ?s" by (simp add: newAudioInterface_def)
  have h5: "list_all (\<lambda>e. \<not> raisesFlag e) ?es" by simp
  from C5_disarmed_until_playback_active_again [OF h1 h2 h3 h4 h5, of 1000 1000 1000]
  have "interruptCount (snd (processAudioData 1000 1000 1000 ?f ?s)) = 1
    \<and> interruptCount (snd (run ?es (processAudioData 1000 1000 1000 ?f ?s))) = 1"
    by blast
  with h1 h2 h3 h4 h5 show ?thesis by blast
qed

subsection \<open>Playback\<close>

lemma convertPCMToFloat32_even:
  "even (length c) \<Longrightarrow> convertPCMToFloat32 c = Inr (samplesOf c)"
  by (simp add: convertPCMToFloat32_def samplesOf_def)

lemma renderStarts_append [simp]: "renderStarts (xs @ ys) = renderStarts xs @ renderStarts ys"
  by (induction xs rule: renderStarts.induct) simp_all

lemma endedCount_append [simp]: "endedCount (xs @ ys) = endedCount xs + endedCount ys"
  by (induction xs rule: endedCount.induct) simp_all

lemma chunksOf_append [simp]: "chunksOf (xs @ ys) = chunksOf xs @ chunksOf ys"
  by (induction xs rule: chunksOf.induct) simp_all

lemma rendering_append: "rendering (xs @ ys) = rendering xs + rendering ys"
  by (simp add: rendering_def)

lemma playNextOutputChunk_empty:
  "outputAudioContext s \<Longrightarrow> outputQueue s = [] \<Longrightarrow>
     playNextOutputChunk dev s =
       (s\<lparr>isOutputPlaying := False, isAudioPlaying := False, currentOutputSource := None\<rparr>, [])"
  by (simp add: playNextOutputChunk_def)

lemma playNextOutputChunk_ok:
  "outputAudioContext s \<Longrightarrow> outputQueue s = c # q \<Longrightarrow> even (length c) \<Longrightarrow>
     playNextOutputChunk DeviceOk s =
       (s\<lparr>isOutputPlaying := True, outputQueue := q, currentOutputSource := Some (samplesOf c)\<rparr>,
        [SourceStart (samplesOf c)])"
  by (simp add: playNextOutputChunk_def convertPCMToFloat32_even Let_def)

lemma playNextOutputChunk_start_throws:
  "outputAudioContext s \<Longrightarrow> outputQueue s = c # q \<Longrightarrow> even (length c) \<Longrightarrow>
     playNextOutputChunk (StartThrows e) s =
       (s\<lparr>isOutputPlaying := False, outputQueue := q, currentOutputSource := None\<rparr>,
        [ConsoleError ''Error starting audio playback''])"
  by (simp add: playNextOutputChunk_def convertPCMToFloat32_even Let_def)

lemma play_while_playing:
  "outputAudioContext s \<Longrightarrow> isOutputPlaying s \<Longrightarrow>
     play c dev s = (s\<lparr>isAudioPlaying := True, outputQueue := outputQueue s @ [c]\<rparr>, [])"
  by (simp add: play_def Let_def)

lemma play_while_idle:
  "outputAudioContext s \<Longrightarrow> \<not> isOutputPlaying s \<Longrightarrow> outputQueue s = [] \<Longrightarrow> even (length c) \<Longrightarrow>
     play c DeviceOk s =
       (s\<lparr>isAudioPlaying := True, isOutputPlaying := True, outputQueue := [],
          currentOutputSource := Some (samplesOf c)\<rparr>, [SourceStart (samplesOf c)])"
  by (simp add: play_def Let_def playNextOutputChunk_ok [where q = "[]"])

lemma playbackInv_Play:
  assumes "playbackInv cs st" and "even (length c)"
  shows "playbackInv (cs @ [c]) (exec (Play c DeviceOk) st)"
proof (cases "isOutputPlaying (fst st)")
  case True
  with assms show ?thesis
    by (simp add: playbackInv_def exec_def play_while_playing)
next
  case False
  with assms have q: "outputQueue (fst st) = []" and ctx: "outputAudioContext (fst st)"
    by (simp_all add: playbackInv_def)
  from assms False q ctx show ?thesis
    by (simp add: playbackInv_def exec_def play_while_idle rendering_append)
      (simp add: rendering_def)
qed

lemma playbackInv_Ended:
  assumes "playbackInv cs st" and "rendering (snd st) > 0"
  shows "playbackInv cs (exec (Ended DeviceOk) st)"
proof -
  from assms have pl: "isOutputPlaying (fst st)" and r: "rendering (snd st) = 1"
    and ctx: "outputAudioContext (fst st)"
    by (auto simp: playbackInv_def split: if_splits)
  show ?thesis
  proof (cases "outputQueue (fst st)")
    case Nil
    with assms pl r ctx show ?thesis
      by (simp add: playbackInv_def exec_def playNextOutputChunk_empty rendering_append)
        (simp add: rendering_def)
  next
    case (Cons c q)
    with assms have ev: "even (length c)"
      by (simp add: playbackInv_def)
    from assms pl r ctx Cons ev show ?thesis
      by (simp add: playbackInv_def exec_def playNextOutputChunk_ok [OF ctx Cons ev] rendering_append)
        (simp add: rendering_def)
  qed
qed

lemma playbackInv_run:
  "playbackInv cs st \<Longrightarrow> list_all plainPlayback es \<Longrightarrow> feasible es st \<Longrightarrow>
     playbackInv (cs @ chunksOf es) (run es st)"
proof (induction es arbitrary: cs st)
  case Nil
  then show ?case by simp
next
  case (Cons e es)
  show ?case
  proof (cases e)
    case (Play c dev)
    with Cons.prems have "playbackInv (cs @ [c]) (exec e st)"
      by (simp add: playbackInv_Play)
    from Cons.IH [OF this] Cons.prems Play show ?thesis by simp
  next
    case (Ended dev)
    with Cons.prems have "playbackInv cs (exec e st)"
      by (simp add: playbackInv_Ended)
    from Cons.IH [OF this] Cons.prems Ended show ?thesis by simp
  qed (use Cons.prems in simp_all)
qed

text \<open>
  Claim C4. Start from an idle playback queue of a started interface and let chunks of
  16 bit PCM arrive and sources end in any feasible order, without interrupt and with a
  device that accepts every chunk. Then at every moment the samples rendered so far,
  followed by the chunks still waiting, are the chunks received, in order of receipt: no
  chunk is skipped, repeated, reordered or merged. At most one source is rendering, and
  one is rendering exactly while the queue is in its playing state. Once as many sources
  have ended as chunks were received, every chunk has been started exactly once and the
  queue is idle and empty. A chunk that arrives while the queue is playing is appended
  and starts nothing. Playback does not stall: the render starts so far are the first
  \<open>k + 1\<close> chunks received, where \<open>k\<close> sources have ended (all chunks, when there
  are no more than that), so the first chunk starts on arrival and every end of a source
  starts the next waiting chunk; and whenever the queue is idle no chunk waits and every
  chunk received has been started.
\<close>

theorem C4_playback_in_order_one_at_a_time:
  assumes "outputAudioContext s" and "\<not> isOutputPlaying s" and "outputQueue s = []"
    and "list_all plainPlayback es" and "feasible es (s, [])"
  shows "renderStarts (snd (run es (s, []))) @ map samplesOf (outputQueue (fst (run es (s, []))))
       = map samplesOf (chunksOf es)
    \<and> 0 \<le> rendering (snd (run es (s, []))) \<and> rendering (snd (run es (s, []))) \<le> 1
    \<and> (isOutputPlaying (fst (run es (s, []))) \<longleftrightarrow> rendering (snd (run es (s, []))) = 1)
    \<and> (endedCount (snd (run es (s, []))) = length (chunksOf es) \<longrightarrow>
         renderStarts (snd (run es (s, []))) = map samplesOf (chunksOf es)
         \<and> \<not> isOutputPlaying (fst (run es (s, [])))
         \<and> outputQueue (fst (run es (s, []))) = [])
    \<and> (isOutputPlaying (fst (run es (s, []))) \<longrightarrow>
         play c dev (fst (run es (s, []))) =
           ((fst (run es (s, [])))\<lparr>isAudioPlaying := True,
              outputQueue := outputQueue (fst (run es (s, []))) @ [c]\<rparr>, []))
    \<and> renderStarts (snd (run es (s, []))) =
         take (endedCount (snd (run es (s, []))) + 1) (map samplesOf (chunksOf es))
    \<and> (\<not> isOutputPlaying (fst (run es (s, []))) \<longrightarrow>
         outputQueue (fst (run es (s, []))) = []
         \<and> renderStarts (snd (run es (s, []))) = map samplesOf (chunksOf es))"
proof -
  let ?st = "run es (s, [])"
  from assms(1-3) have "playbackInv [] (s, [])"
    by (simp add: playbackInv_def rendering_def)
  from playbackInv_run [OF this assms(4) assms(5)]
  have inv: "playbackInv (chunksOf es) ?st" by simp
  then have a: "renderStarts (snd ?st) @ map samplesOf (outputQueue (fst ?st))
       = map samplesOf (chunksOf es)"
    and ctx: "outputAudioContext (fst ?st)"
    and pl: "isOutputPlaying (fst ?st) \<Longrightarrow> rendering (snd ?st) = 1"
    and idle: "\<not> isOutputPlaying (fst ?st) \<Longrightarrow> rendering (snd ?st) = 0 \<and> outputQueue (fst ?st) = []"
    by (simp_all add: playbackInv_def split: if_splits)
  have b: "0 \<le> rendering (snd ?st) \<and> rendering (snd ?st) \<le> 1"
    using pl idle by (cases "isOutputPlaying (fst ?st)") simp_all
  have c: "isOutputPlaying (fst ?st) \<longleftrightarrow> rendering (snd ?st) = 1"
    using pl idle by (cases "isOutputPlaying (fst ?st)") simp_all
  have d: "renderStarts (snd ?st) = map samplesOf (chunksOf es)
         \<and> \<not> isOutputPlaying (fst ?st) \<and> outputQueue (fst ?st) = []"
    if fin: "endedCount (snd ?st) = length (chunksOf es)"
  proof -
    from a have "length (renderStarts (snd ?st)) + length (outputQueue (fst ?st)) = length (chunksOf es)"
      by (metis length_append length_map)
    with fin have "rendering (snd ?st) \<le> 0"
      by (simp add: rendering_def)
    with c have np: "\<not> isOutputPlaying (fst ?st)" by simp
    with idle have "outputQueue (fst ?st) = []" by simp
    with a np show ?thesis by simp
  qed
  have e: "play c dev (fst ?st) =
      ((fst ?st)\<lparr>isAudioPlaying := True, outputQueue := outputQueue (fst ?st) @ [c]\<rparr>, [])"
    if "isOutputPlaying (fst ?st)"
    using play_while_playing [OF ctx that] .
  have g: "outputQueue (fst ?st) = [] \<and> renderStarts (snd ?st) = map samplesOf (chunksOf es)"
    if "\<not> isOutputPlaying (fst ?st)"
    using idle [OF that] a by simp
  have h: "renderStarts (snd ?st) = take (endedCount (snd ?st) + 1) (map samplesOf (chunksOf es))"
  proof (cases "isOutputPlaying (fst ?st)")
    case True
    from pl [OF True] have "length (renderStarts (snd ?st)) = endedCount (snd ?st) + 1"
      by (simp add: rendering_def)
    then have "take (endedCount (snd ?st) + 1)
        (renderStarts (snd ?st) @ map samplesOf (outputQueue (fst ?st))) = renderStarts (snd ?st)"
      by simp
    with a show ?thesis by simp
  next
    case False
    from idle [OF False] have "length (renderStarts (snd ?st)) = endedCount (snd ?st)"
      by (simp add: rendering_def)
    with g [OF False] show ?thesis by simp
  qed
  from a b c d e g h show ?thesis by blast
qed

lemmas playback_defs = exec_def play_def playNextOutputChunk_def convertPCMToFloat32_even
  start_def newAudioInterface_def rendering_def Let_def

text \<open>C4 at two chunks of 4096 bytes handed to a started, idle interface, the second
  while the first is rendering: the first starts on arrival, the second when the first
  has ended; two render starts, in order of receipt, then idle with nothing waiting.\<close>

theorem C4_witness:
  "outputAudioContext (fst (start AudioOk (newAudioInterface 0 True True)))
   \<and> list_all plainPlayback
       [Play (replicate 4096 0) DeviceOk, Play (replicate 4096 1) DeviceOk,
        Ended DeviceOk, Ended DeviceOk]
   \<and> feasible
       [Play (replicate 4096 0) DeviceOk, Play (replicate 4096 1) DeviceOk,
        Ended DeviceOk, Ended DeviceOk]
       (fst (start AudioOk (newAudioInterface 0 True True)), [])
   \<and> renderStarts (snd (run
       [Play (replicate 4096 0) DeviceOk, Play (replicate 4096 1) DeviceOk,
        Ended DeviceOk, Ended DeviceOk]
       (fst (start AudioOk (newAudioInterface 0 True True)), [])))
     = [samplesOf (replicate 4096 0), samplesOf (replicate 4096 1)]
   \<and> \<not> isOutputPlaying (fst (run
       [Play (replicate 4096 0) DeviceOk, Play (replicate 4096 1) DeviceOk,
        Ended DeviceOk, Ended DeviceOk]
       (fst (start AudioOk (newAudioInterface 0 True True)), [])))
   \<and> outputQueue (fst (run
       [Play (replicate 4096 0) DeviceOk, Play (replicate 4096 1) DeviceOk,
        Ended DeviceOk, Ended DeviceOk]
       (fst (start AudioOk (newAudioInterface 0 True True)), []))) = []
   \<and> feasible [Play (replicate 4096 0) DeviceOk, Play (replicate 4096 1) DeviceOk]
       (fst (start AudioOk (newAudioInterface 0 True True)), [])
   \<and> renderStarts (snd (run
       [Play (replicate 4096 0) DeviceOk, Play (replicate 4096 1) DeviceOk]
       (fst (start AudioOk (newAudioInterface 0 True True)), [])))
     = [samplesOf (replicate 4096 0)]
   \<and> feasible [Play (replicate 4096 0) DeviceOk, Play (replicate 4096 1) DeviceOk,
        Ended DeviceOk]
       (fst (start AudioOk (newAudioInterface 0 True True)), [])
   \<and> renderStarts (snd (run
       [Play (replicate 4096 0) DeviceOk, Play (replicate 4096 1) DeviceOk, Ended DeviceOk]
       (fst (start AudioOk (newAudioInterface 0 True True)), [])))
     = [samplesOf (replicate 4096 0), samplesOf (replicate 4096 1)]"
proof -
  let ?s = "fst (start AudioOk (newAudioInterface 0 True True))"
  let ?es = "[Play (replicate 4096 0) DeviceOk, Play (replicate 4096 1) DeviceOk,
        Ended DeviceOk, Ended DeviceOk]"
  have h1: "outputAudioContext ?s" by (simp add: start_def)
  have h2: "\<not> isOutputPlaying ?s" by (simp add: start_def newAudioInterface_def)
  have h3: "outputQueue ?s = []" by (simp add: start_def newAudioInterface_def)
  have h4: "list_all plainPlayback ?es" by simp
  have h5: "feasible ?es (?s, [])" by (simp add: playback_defs)
  have n: "endedCount (snd (run ?es (?s, []))) = length (chunksOf ?es)"
    by (simp add: playback_defs)
  from C4_playback_in_order_one_at_a_time [OF h1 h2 h3 h4 h5] n
  have fin: "renderStarts (snd (run ?es (?s, []))) = map samplesOf (chunksOf ?es)
     \<and> \<not> isOutputPlaying (fst (run ?es (?s, [])))
     \<and> outputQueue (fst (run ?es (?s, []))) = []"
    by blast
  let ?es1 = "[Play (replicate 4096 0) DeviceOk, Play (replicate 4096 1) DeviceOk]"
  have k4: "list_all plainPlayback ?es1" by simp
  have k5: "feasible ?es1 (?s, [])" by (simp add: playback_defs)
  have n1: "endedCount (snd (run ?es1 (?s, []))) = 0"
    by (simp add: playback_defs)
  from C4_playback_in_order_one_at_a_time [OF h1 h2 h3 k4 k5]
  have "renderStarts (snd (run ?es1 (?s, []))) =
      take (endedCount (snd (run ?es1 (?s, []))) + 1) (map samplesOf (chunksOf ?es1))"
    by blast
  then have one: "renderStarts (snd (run ?es1 (?s, []))) = [samplesOf (replicate 4096 0)]"
    unfolding n1 by simp
  let ?es2 = "[Play (replicate 4096 0) DeviceOk, Play (replicate 4096 1) DeviceOk,
        Ended DeviceOk]"
  have m4: "list_all plainPlayback ?es2" by simp
  have m5: "feasible ?es2 (?s, [])" by (simp add: playback_defs)
  have n2: "endedCount (snd (run ?es2 (?s, []))) = 1"
    by (simp add: playback_defs)
  from C4_playback_in_order_one_at_a_time [OF h1 h2 h3 m4 m5]
  have "renderStarts (snd (run ?es2 (?s, []))) =
      take (endedCount (snd (run ?es2 (?s, []))) + 1) (map samplesOf (chunksOf ?es2))"
    by blast
  then have two: "renderStarts (snd (run ?es2 (?s, []))) =
      [samplesOf (replicate 4096 0), samplesOf (replicate 4096 1)]"
    unfolding n2 by simp
  from h1 h4 h5 fin k5 one m5 two show ?thesis by simp
qed

text \<open>
  The failure that \<^verbatim>\<open>playNextOutputChunk\<close> handles. When \<^verbatim>\<open>source.start()\<close>
  throws for the chunk at the head of the queue, the failure is reported on the console,
  the chunk has left the queue (it is not put back), the queue is idle with no current
  source, and no exception leaves \<^verbatim>\<open>playNextOutputChunk\<close>: nothing is rendered, the
  interface keeps running, and a received chunk whose render start fails so changes
  neither the conversation state (its error field included) nor the running flag nor the
  socket. The next chunk handed to \<^verbatim>\<open>play\<close> resumes playback with the chunk now at
  the head.
\<close>

lemma start_failure_drops_chunk:
  assumes "outputAudioContext s" and "outputQueue s = c # q" and "list_all (\<lambda>c. even (length c)) (c # q @ [c'])"
  shows "playNextOutputChunk (StartThrows e) s =
       (s\<lparr>isOutputPlaying := False, outputQueue := q, currentOutputSource := None\<rparr>,
        [ConsoleError ''Error starting audio playback''])
    \<and> raised (snd (playNextOutputChunk (StartThrows e) s)) = None
    \<and> renderStarts (snd (playNextOutputChunk (StartThrows e) s)) = []
    \<and> isRunning (fst (playNextOutputChunk (StartThrows e) s)) = isRunning s
    \<and> state (binaryMessage c' (StartThrows e) cm) = state cm
    \<and> cm_isRunning (binaryMessage c' (StartThrows e) cm) = cm_isRunning cm
    \<and> webSocketManager (binaryMessage c' (StartThrows e) cm) = webSocketManager cm
    \<and> renderStarts (snd (play c' DeviceOk (fst (playNextOutputChunk (StartThrows e) s))))
        = [samplesOf (hd (q @ [c']))]"
proof -
  from assms(3) have ev: "even (length c)" by simp
  note a = playNextOutputChunk_start_throws [OF assms(1) assms(2) ev, of e]
  have b: "state (binaryMessage c' (StartThrows e) cm) = state cm
    \<and> cm_isRunning (binaryMessage c' (StartThrows e) cm) = cm_isRunning cm
    \<and> webSocketManager (binaryMessage c' (StartThrows e) cm) = webSocketManager cm"
    by (simp add: binaryMessage_def)
  have c: "renderStarts (snd (play c' DeviceOk (fst (playNextOutputChunk (StartThrows e) s))))
        = [samplesOf (hd (q @ [c']))]"
  proof (cases q)
    case Nil
    with assms show ?thesis
      by (simp add: a play_def Let_def playNextOutputChunk_def convertPCMToFloat32_even)
  next
    case (Cons d q')
    with assms show ?thesis
      by (simp add: a play_def Let_def playNextOutputChunk_def convertPCMToFloat32_even)
  qed
  from a b c show ?thesis by simp
qed

text \<open>The same at a started interface holding two chunks, where \<^verbatim>\<open>source.start()\<close>
  throws for the first.\<close>

lemma start_failure_example:
  "outputAudioContext ((fst (start AudioOk (newAudioInterface 0 True True)))
       \<lparr>outputQueue := [replicate 4096 0, replicate 4096 1]\<rparr>)
   \<and> list_all (\<lambda>c. even (length c)) (replicate 4096 0 # [replicate 4096 1] @ [replicate 4096 2])
   \<and> outputQueue (fst (playNextOutputChunk (StartThrows (JsError ''InvalidStateError''))
       ((fst (start AudioOk (newAudioInterface 0 True True)))
         \<lparr>outputQueue := [replicate 4096 0, replicate 4096 1]\<rparr>))) = [replicate 4096 1]
   \<and> \<not> isOutputPlaying (fst (playNextOutputChunk (StartThrows (JsError ''InvalidStateError''))
       ((fst (start AudioOk (newAudioInterface 0 True True)))
         \<lparr>outputQueue := [replicate 4096 0, replicate 4096 1]\<rparr>)))
   \<and> snd (playNextOutputChunk (StartThrows (JsError ''InvalidStateError''))
       ((fst (start AudioOk (newAudioInterface 0 True True)))
         \<lparr>outputQueue := [replicate 4096 0, replicate 4096 1]\<rparr>))
       = [ConsoleError ''Error starting audio playback'']"
proof -
  let ?s = "(fst (start AudioOk (newAudioInterface 0 True True)))
       \<lparr>outputQueue := [replicate 4096 0, replicate 4096 1]\<rparr>"
  have h1: "outputAudioContext ?s" by (simp add: start_def)
  have h2: "outputQueue ?s = replicate 4096 0 # [replicate 4096 1]" by simp
  have h3: "list_all (\<lambda>c. even (length c)) (replicate 4096 0 # [replicate 4096 1] @ [replicate 4096 (2 :: 8 word)])"
    by simp
  from start_failure_drops_chunk [OF h1 h2 h3, of "JsError ''InvalidStateError''"]
  have "playNextOutputChunk (StartThrows (JsError ''InvalidStateError'')) ?s =
       (?s\<lparr>isOutputPlaying := False, outputQueue := [replicate 4096 1], currentOutputSource := None\<rparr>,
        [ConsoleError ''Error starting audio playback''])"
    by blast
  with h1 h3 show ?thesis by simp
qed

subsection \<open>PCM conversion\<close>

lemma int16_of_bytes:
  "(ucast (ucast w :: 8 word) :: 16 word) OR push_bit 8 (ucast (ucast (drop_bit 8 w :: 16 word) :: 8 word)) = w"
  by (rule bit_word_eqI) (auto simp add: bit_simps)

lemma int16View_uint8View: "int16View (uint8View ws) = ws"
  by (induction ws) (simp_all add: uint8View_def int16_of_bytes)

lemma length_uint8View: "length (uint8View ws) = 2 * length ws"
  by (induction ws) (simp_all add: uint8View_def)

lemma sint_toInt16:
  "- 32768 \<le> jsTruncate r \<Longrightarrow> jsTruncate r < 32768 \<Longrightarrow> sint (toInt16 r) = jsTruncate r"
  by (simp add: toInt16_def sint_sbintrunc' signed_take_bit_int_eq_self)

lemma roundTrip:
  "convertPCMToFloat32 (uint8View (float32ArrayToInt16Array xs)) =
     Inr (map (\<lambda>x. real_of_int (sint (toInt16 (max (- 1) (min 1 x) * 32767))) / 32768) xs)"
  by (simp add: convertPCMToFloat32_def length_uint8View int16View_uint8View
      float32ArrayToInt16Array_def comp_def)

lemma jsTruncate_bounds:
  assumes "- 1 \<le> x" and "x \<le> 1"
  shows "- 32767 \<le> jsTruncate (x * 32767)" and "jsTruncate (x * 32767) \<le> 32767"
    and "0 \<le> x \<Longrightarrow> 0 \<le> jsTruncate (x * 32767)"
    and "0 \<le> x \<Longrightarrow> real_of_int (jsTruncate (x * 32767)) \<le> x * 32767"
    and "0 \<le> x \<Longrightarrow> x * 32767 < real_of_int (jsTruncate (x * 32767)) + 1"
    and "x \<le> 0 \<Longrightarrow> jsTruncate (x * 32767) \<le> 0"
    and "x \<le> 0 \<Longrightarrow> x * 32767 \<le> real_of_int (jsTruncate (x * 32767))"
    and "x \<le> 0 \<Longrightarrow> real_of_int (jsTruncate (x * 32767)) < x * 32767 + 1"
proof -
  have lo: "- 32767 \<le> x * 32767" and hi: "x * 32767 \<le> 32767"
    using assms by simp_all
  show "- 32767 \<le> jsTruncate (x * 32767)"
    using lo by (auto simp: jsTruncate_def le_floor_iff le_ceiling_iff)
  show "jsTruncate (x * 32767) \<le> 32767"
    using hi by (auto simp: jsTruncate_def floor_le_iff ceiling_le_iff)
  show "0 \<le> jsTruncate (x * 32767)" if "0 \<le> x"
    using that by (auto simp: jsTruncate_def)
  show "real_of_int (jsTruncate (x * 32767)) \<le> x * 32767" if "0 \<le> x"
    using that by (auto simp: jsTruncate_def)
  show "x * 32767 < real_of_int (jsTruncate (x * 32767)) + 1" if "0 \<le> x"
    using that by (auto simp: jsTruncate_def)
  show "jsTruncate (x * 32767) \<le> 0" if "x \<le> 0"
    using that by (auto simp: jsTruncate_def ceiling_le_iff) 
  show "x * 32767 \<le> real_of_int (jsTruncate (x * 32767))" if "x \<le> 0"
    using that by (auto simp: jsTruncate_def)
  show "real_of_int (jsTruncate (x * 32767)) < x * 32767 + 1" if "x \<le> 0"
    using that by (auto simp: jsTruncate_def) linarith
qed

lemma sample_round_trip:
  assumes "- 1 \<le> x" and "x \<le> 1"
  shows "sint (toInt16 (max (- 1) (min 1 x) * 32767)) = jsTruncate (x * 32767)"
    and "\<bar>real_of_int (jsTruncate (x * 32767)) / 32768 - x\<bar> < 2 / 32768"
    and "if 0 \<le> x then 0 \<le> real_of_int (jsTruncate (x * 32767)) / 32768
             \<and> real_of_int (jsTruncate (x * 32767)) / 32768 \<le> x
         else x \<le> real_of_int (jsTruncate (x * 32767)) / 32768
             \<and> real_of_int (jsTruncate (x * 32767)) / 32768 \<le> 0"
proof -
  note b = jsTruncate_bounds [OF assms]
  have clamp: "max (- 1) (min 1 x) = x"
    using assms by simp
  show "sint (toInt16 (max (- 1) (min 1 x) * 32767)) = jsTruncate (x * 32767)"
    unfolding clamp using b(1,2) by (intro sint_toInt16) linarith+
  show "\<bar>real_of_int (jsTruncate (x * 32767)) / 32768 - x\<bar> < 2 / 32768"
  proof (cases "0 \<le> x")
    case True
    from b(4,5) [OF True] assms show ?thesis by (simp add: field_simps abs_less_iff)
  next
    case False
    then have "x \<le> 0" by simp
    from b(7,8) [OF this] assms show ?thesis by (simp add: field_simps abs_less_iff)
  qed
  show "if 0 \<le> x then 0 \<le> real_of_int (jsTruncate (x * 32767)) / 32768
             \<and> real_of_int (jsTruncate (x * 32767)) / 32768 \<le> x
         else x \<le> real_of_int (jsTruncate (x * 32767)) / 32768
             \<and> real_of_int (jsTruncate (x * 32767)) / 32768 \<le> 0"
  proof (cases "0 \<le> x")
    case True
    from b(3,4) [OF True] True show ?thesis by (simp add: field_simps)
  next
    case False
    then have "x \<le> 0" by simp
    from b(6,7) [OF this] False show ?thesis by (simp add: field_simps)
  qed
qed


text \<open>
  Claim C8, as amended. The claim bounds the round trip error by \<open>1 / 32768\<close>; the
  conversion scales by 32767 and truncates, the way back divides by 32768, and the two
  together lose up to (not including) two steps. For a buffer of samples in \<open>[-1, 1]\<close>
  the round trip through \<^verbatim>\<open>float32ArrayToInt16Array\<close>, the byte view and
  \<^verbatim>\<open>convertPCMToFloat32\<close> yields a buffer of the same length in which every sample
  differs from the original by less than \<open>2 / 32768\<close>, has the original's sign or is
  zero, and is no larger in magnitude; the 16 bit value stored is the truncated product
  itself, between -32767 and 32767, so nothing wraps.
\<close>

theorem C8_round_trip_within_two_steps:
  assumes "list_all (\<lambda>x. - 1 \<le> x \<and> x \<le> 1) xs"
  shows "\<exists>ys. convertPCMToFloat32 (uint8View (float32ArrayToInt16Array xs)) = Inr ys
    \<and> list_all2 (\<lambda>x y. \<bar>y - x\<bar> < 2 / 32768
         \<and> (if 0 \<le> x then 0 \<le> y \<and> y \<le> x else x \<le> y \<and> y \<le> 0)) xs ys
    \<and> list_all2 (\<lambda>x w. sint w = jsTruncate (x * 32767) \<and> - 32767 \<le> sint w \<and> sint w \<le> 32767)
         xs (float32ArrayToInt16Array xs)"
proof -
  let ?ys = "map (\<lambda>x. real_of_int (sint (toInt16 (max (- 1) (min 1 x) * 32767))) / 32768) xs"
  have a: "convertPCMToFloat32 (uint8View (float32ArrayToInt16Array xs)) = Inr ?ys"
    by (rule roundTrip)
  have b: "list_all2 (\<lambda>x y. \<bar>y - x\<bar> < 2 / 32768
         \<and> (if 0 \<le> x then 0 \<le> y \<and> y \<le> x else x \<le> y \<and> y \<le> 0)) xs ?ys"
    unfolding list.rel_map list_all2_same
  proof
    fix x assume "x \<in> set xs"
    with assms have x: "- 1 \<le> x" "x \<le> 1" by (auto simp: list_all_iff)
    have eq: "sint (toInt16 (max (- 1) (min 1 x) * 32767)) = jsTruncate (x * 32767)"
      by (rule sample_round_trip(1) [OF x])
    show "\<bar>real_of_int (sint (toInt16 (max (- 1) (min 1 x) * 32767))) / 32768 - x\<bar> < 2 / 32768
      \<and> (if 0 \<le> x then 0 \<le> real_of_int (sint (toInt16 (max (- 1) (min 1 x) * 32767))) / 32768
             \<and> real_of_int (sint (toInt16 (max (- 1) (min 1 x) * 32767))) / 32768 \<le> x
          else x \<le> real_of_int (sint (toInt16 (max (- 1) (min 1 x) * 32767))) / 32768
             \<and> real_of_int (sint (toInt16 (max (- 1) (min 1 x) * 32767))) / 32768 \<le> 0)"
      unfolding eq using sample_round_trip(2,3) [OF x] by blast
  qed
  have c: "list_all2 (\<lambda>x w. sint w = jsTruncate (x * 32767) \<and> - 32767 \<le> sint w \<and> sint w \<le> 32767)
         xs (float32ArrayToInt16Array xs)"
    unfolding float32ArrayToInt16Array_def list.rel_map list_all2_same
  proof
    fix x assume "x \<in> set xs"
    with assms have x: "- 1 \<le> x" "x \<le> 1" by (auto simp: list_all_iff)
    from sample_round_trip(1) [OF x] jsTruncate_bounds(1,2) [OF x]
    show "sint (toInt16 (max (- 1) (min 1 x) * 32767)) = jsTruncate (x * 32767)
      \<and> - 32767 \<le> sint (toInt16 (max (- 1) (min 1 x) * 32767))
      \<and> sint (toInt16 (max (- 1) (min 1 x) * 32767)) \<le> 32767"
      by simp
  qed
  from a b c show ?thesis by blast
qed

text \<open>C8 at the sample \<open>65535 / 65536\<close> (a float32 value): it is stored as 32766 and
  comes back as \<open>32766 / 32768\<close>, one and a half steps below.\<close>

theorem C8_witness:
  "list_all (\<lambda>x. - 1 \<le> x \<and> x \<le> 1) [65535 / 65536 :: real]
   \<and> convertPCMToFloat32 (uint8View (float32ArrayToInt16Array [65535 / 65536])) = Inr [32766 / 32768]
   \<and> \<bar>32766 / 32768 - 65535 / 65536 :: real\<bar> < 2 / 32768
   \<and> map sint (float32ArrayToInt16Array [65535 / 65536]) = [32766]"
proof -
  have h: "list_all (\<lambda>x. - 1 \<le> x \<and> x \<le> 1) [65535 / 65536 :: real]" by simp
  from C8_round_trip_within_two_steps [OF h]
  obtain ys where ys: "convertPCMToFloat32 (uint8View (float32ArrayToInt16Array [65535 / 65536])) = Inr ys"
    and w: "list_all2 (\<lambda>x w. sint w = jsTruncate (x * 32767) \<and> - 32767 \<le> sint w \<and> sint w \<le> 32767)
         [65535 / 65536] (float32ArrayToInt16Array [65535 / 65536])"
    by blast
  from w have s: "map sint (float32ArrayToInt16Array [65535 / 65536]) = [32766]"
    by (simp add: float32ArrayToInt16Array_def jsTruncate_def)
  then have "sint (toInt16 (max (- 1) (min 1 (65535 / 65536)) * 32767)) = 32766"
    by (simp add: float32ArrayToInt16Array_def)
  then have "convertPCMToFloat32 (uint8View (float32ArrayToInt16Array [65535 / 65536])) = Inr [32766 / 32768]"
    by (simp add: roundTrip del: of_int_sint)
  with h s show ?thesis by simp
qed

text \<open>Claim C8 as stated fails at that sample: the round trip error is
  \<open>3 / 65536\<close>, more than \<open>1 / 32768\<close>.\<close>

theorem C8_counterexample:
  "convertPCMToFloat32 (uint8View (float32ArrayToInt16Array [65535 / 65536])) = Inr [32766 / 32768]
   \<and> \<not> \<bar>32766 / 32768 - 65535 / 65536 :: real\<bar> \<le> 1 / 32768"
proof -
  have "sint (toInt16 (max (- 1) (min 1 (65535 / 65536)) * 32767)) = 32766"
    by (simp add: toInt16_def jsTruncate_def)
  then show ?thesis
    by (simp add: roundTrip del: of_int_sint)
qed

subsection \<open>The trailing transmit window\<close>

lemma silent_step:
  assumes "isRunning s" and "\<not> isSpeech g"
  shows "step (AudioProcess u u u g) s =
    (if shouldSendAudio u s
     then (if 500 \<le> u - lastSendTime s
           then (s\<lparr>audioBufferParts := [], lastSendTime := u\<rparr>,
                 (if hasAmplitudeCallback s then [AmplitudeCallback (calculateRMS g)] else [])
                 @ [InputCallback (concat (audioBufferParts s
                      @ [uint8View (float32ArrayToInt16Array g)]))])
           else (s\<lparr>audioBufferParts := audioBufferParts s
                      @ [uint8View (float32ArrayToInt16Array g)]\<rparr>,
                 if hasAmplitudeCallback s then [AmplitudeCallback (calculateRMS g)] else []))
     else (s, if hasAmplitudeCallback s then [AmplitudeCallback (calculateRMS g)] else []))"
  using assms
  by (simp add: onaudioprocess_def processAudioData_def checkForSpeech_def bufferAudio_def
      sendBatched_def sendDue_def sendInterval_def Let_def shouldSendAudio_def)

lemma flushes_amplitude [simp]:
  "flushes (if b then [AmplitudeCallback a] else []) = []"
  by simp

lemma silent_exec:
  assumes "isRunning (fst st)" and "\<not> isSpeech g"
  shows "fst (exec (AudioProcess u u u g) st) =
      (if shouldSendAudio u (fst st)
       then (if 500 \<le> u - lastSendTime (fst st)
             then (fst st)\<lparr>audioBufferParts := [], lastSendTime := u\<rparr>
             else (fst st)\<lparr>audioBufferParts := audioBufferParts (fst st)
                      @ [uint8View (float32ArrayToInt16Array g)]\<rparr>)
       else fst st)"
    and "flushes (snd (exec (AudioProcess u u u g) st)) =
      flushes (snd st) @
      (if shouldSendAudio u (fst st) \<and> 500 \<le> u - lastSendTime (fst st)
       then [concat (audioBufferParts (fst st) @ [uint8View (float32ArrayToInt16Array g)])]
       else [])"
  using silent_step [OF assms, of u]
  by (simp_all add: exec_def split_beta del: step.simps)

lemma speech_exec:
  assumes "isRunning (fst st)" and "isSpeech f" and "audioBufferParts (fst st) = []"
    and "lastSendTime (fst st) + 500 \<le> u"
  shows "isRunning (fst (exec (AudioProcess u u u f) st))"
    and "lastSpeechTime (fst (exec (AudioProcess u u u f) st)) = Some u"
    and "audioBufferParts (fst (exec (AudioProcess u u u f) st)) = []"
    and "lastSendTime (fst (exec (AudioProcess u u u f) st)) = u"
    and "flushes (snd (exec (AudioProcess u u u f) st)) =
      flushes (snd st) @ [uint8View (float32ArrayToInt16Array f)]"
  using assms
  by (simp_all add: exec_def split_beta onaudioprocess_def processAudioData_def
      checkForSpeech_def bufferAudio_def sendBatched_def sendDue_def sendInterval_def
      Let_def shouldSendAudio_def silenceTimeout_def)

lemma isRunning_silent_exec:
  "isRunning (fst st) \<Longrightarrow> \<not> isSpeech g \<Longrightarrow> isRunning (fst (exec (AudioProcess u u u g) st))"
  by (simp add: silent_exec)

text \<open>Without speech so far, silence sends nothing.\<close>

lemma silence_never_spoken:
  "lastSpeechTime (fst st) = None \<Longrightarrow> list_all (\<lambda>g. \<not> isSpeech g) gs \<Longrightarrow>
     flushes (snd (run (captureStream u p gs) st)) = flushes (snd st)"
proof (induction gs arbitrary: u st)
  case Nil
  then show ?case by simp
next
  case (Cons g gs)
  let ?st = "exec (AudioProcess u u u g) st"
  from Cons.prems have g: "\<not> isSpeech g" and gs: "list_all (\<lambda>g. \<not> isSpeech g) gs"
    by simp_all
  have a: "lastSpeechTime (fst ?st) = None"
    using Cons.prems(1) g
    by (simp add: fst_exec onaudioprocess_def lastSpeechTime_processAudioData)
  have b: "flushes (snd ?st) = flushes (snd st)"
    using Cons.prems(1) g
    by (simp add: snd_exec onaudioprocess_def flushes_processAudioData sendDue_def
        shouldSendAudio_def lastSpeechTime_checkForSpeech)
  from Cons.IH [OF a gs, of "u + p"] b show ?case by simp
qed

text \<open>Once the window has closed, silence sends nothing more and buffers nothing.\<close>

lemma silence_after_window:
  "\<not> shouldSendAudio u (fst st) \<Longrightarrow> 0 \<le> p \<Longrightarrow> isRunning (fst st) \<Longrightarrow>
   list_all (\<lambda>g. \<not> isSpeech g) gs \<Longrightarrow>
     flushes (snd (run (captureStream u p gs) st)) = flushes (snd st)
     \<and> fst (run (captureStream u p gs) st) = fst st"
proof (induction gs arbitrary: u st)
  case Nil
  then show ?case by simp
next
  case (Cons g gs)
  let ?st = "exec (AudioProcess u u u g) st"
  from Cons.prems have g: "\<not> isSpeech g" and gs: "list_all (\<lambda>g. \<not> isSpeech g) gs"
    by simp_all
  from silent_exec [OF Cons.prems(3) g, of u] Cons.prems(1)
  have a: "fst ?st = fst st" and b: "flushes (snd ?st) = flushes (snd st)"
    by simp_all
  have c: "\<not> shouldSendAudio (u + p) (fst ?st)"
    using shouldSendAudio_mono [OF Cons.prems(1), of "u + p" "fst ?st"] Cons.prems(2) a by simp
  from Cons.IH [OF c Cons.prems(2) _ gs] a b Cons.prems(3) show ?case by simp
qed


lemma flushes_interrupt [simp]: "flushes (if b then [OnInterrupt] else []) = []"
  by simp

lemma speech_step:
  assumes "isRunning s" and "isSpeech f" and "audioBufferParts s = []"
    and "lastSendTime s + 500 \<le> u"
  shows "step (AudioProcess u u u f) s =
    (s\<lparr>lastSpeechTime := Some u,
       isAudioPlaying := isAudioPlaying s
         \<and> \<not> (calculateRMS f > interruptThreshold \<and> hasOnInterrupt s),
       audioBufferParts := [], lastSendTime := u\<rparr>,
     (if hasAmplitudeCallback s then [AmplitudeCallback (calculateRMS f)] else [])
     @ (if isAudioPlaying s \<and> calculateRMS f > interruptThreshold \<and> hasOnInterrupt s
        then [OnInterrupt] else [])
     @ [InputCallback (uint8View (float32ArrayToInt16Array f))])"
  using assms
  by (cases "isAudioPlaying s"; cases "hasOnInterrupt s";
      cases "calculateRMS f > interruptThreshold")
    (simp_all add: onaudioprocess_def processAudioData_def checkForSpeech_def bufferAudio_def
      sendBatched_def sendDue_def sendInterval_def Let_def shouldSendAudio_def
      silenceTimeout_def)


lemma silent_window:
  fixes g :: "nat \<Rightarrow> Float32Array"
  assumes "isRunning s" and "lastSpeechTime s = Some t" and "audioBufferParts s = []"
    and "lastSendTime s = t" and "\<forall>k<35. \<not> isSpeech (g k)"
  shows "flushes (snd (run (captureStream (t + 64) 64 (map g [0, 1, 2, 3, 4, 5, 6, 7, 8, 9, 10, 11, 12, 13, 14, 15, 16, 17, 18, 19, 20, 21, 22, 23, 24, 25, 26, 27, 28, 29, 30, 31, 32, 33, 34])) (s, tr))) =
      flushes tr @ [concat [uint8View (float32ArrayToInt16Array (g 0)), uint8View (float32ArrayToInt16Array (g 1)), uint8View (float32ArrayToInt16Array (g 2)), uint8View (float32ArrayToInt16Array (g 3)), uint8View (float32ArrayToInt16Array (g 4)), uint8View (float32ArrayToInt16Array (g 5)), uint8View (float32ArrayToInt16Array (g 6)), uint8View (float32ArrayToInt16Array (g 7))], concat [uint8View (float32ArrayToInt16Array (g 8)), uint8View (float32ArrayToInt16Array (g 9)), uint8View (float32ArrayToInt16Array (g 10)), uint8View (float32ArrayToInt16Array (g 11)), uint8View (float32ArrayToInt16Array (g 12)), uint8View (float32ArrayToInt16Array (g 13)), uint8View (float32ArrayToInt16Array (g 14)), uint8View (float32ArrayToInt16Array (g 15))], concat [uint8View (float32ArrayToInt16Array (g 16)), uint8View (float32ArrayToInt16Array (g 17)), uint8View (float32ArrayToInt16Array (g 18)), uint8View (float32ArrayToInt16Array (g 19)), uint8View (float32ArrayToInt16Array (g 20)), uint8View (float32ArrayToInt16Array (g 21)), uint8View (float32ArrayToInt16Array (g 22)), uint8View (float32ArrayToInt16Array (g 23))]]"
    and "audioBufferParts (fst (run (captureStream (t + 64) 64 (map g [0, 1, 2, 3, 4, 5, 6, 7, 8, 9, 10, 11, 12, 13, 14, 15, 16, 17, 18, 19, 20, 21, 22, 23, 24, 25, 26, 27, 28, 29, 30, 31, 32, 33, 34])) (s, tr))) = [uint8View (float32ArrayToInt16Array (g 24)), uint8View (float32ArrayToInt16Array (g 25)), uint8View (float32ArrayToInt16Array (g 26)), uint8View (float32ArrayToInt16Array (g 27)), uint8View (float32ArrayToInt16Array (g 28)), uint8View (float32ArrayToInt16Array (g 29)), uint8View (float32ArrayToInt16Array (g 30))]"
    and "lastSpeechTime (fst (run (captureStream (t + 64) 64 (map g [0, 1, 2, 3, 4, 5, 6, 7, 8, 9, 10, 11, 12, 13, 14, 15, 16, 17, 18, 19, 20, 21, 22, 23, 24, 25, 26, 27, 28, 29, 30, 31, 32, 33, 34])) (s, tr))) = Some t"
    and "isRunning (fst (run (captureStream (t + 64) 64 (map g [0, 1, 2, 3, 4, 5, 6, 7, 8, 9, 10, 11, 12, 13, 14, 15, 16, 17, 18, 19, 20, 21, 22, 23, 24, 25, 26, 27, 28, 29, 30, 31, 32, 33, 34])) (s, tr)))"
  using assms
  by (cases "hasAmplitudeCallback s";
      simp add: exec_def silent_step shouldSendAudio_def silenceTimeout_def
        del: step.simps)+


lemma explicit35:
  assumes "length gs = 35"
  shows "gs = map (nth gs) [0, 1, 2, 3, 4, 5, 6, 7, 8, 9, 10, 11, 12, 13, 14, 15, 16, 17, 18, 19, 20, 21, 22, 23, 24, 25, 26, 27, 28, 29, 30, 31, 32, 33, 34]"
proof -
  have "[0..<35] = [0, 1, 2, 3, 4, 5, 6, 7, 8, 9, 10, 11, 12, 13, 14, 15, 16, 17, 18, 19, 20, 21, 22, 23, 24, 25, 26, 27, 28, 29, 30, 31, 32, 33, 34 :: nat]"
    by (simp add: upt_rec)
  with assms map_nth [of gs] show ?thesis by simp
qed

text \<open>A speech frame that arrives at \<open>t\<close>, at least 500 ms after the flush timer was
  set, followed by 35 silent frames 64 ms apart, and then by any further silence.\<close>

lemma trailing_window_run:
  assumes "isRunning s" and "audioBufferParts s = []" and "lastSendTime s + 500 \<le> t"
    and "isSpeech f" and "length gs = 35" and "list_all (\<lambda>g. \<not> isSpeech g) gs"
    and "list_all (\<lambda>g. \<not> isSpeech g) hs"
  shows "flushes (snd (run (captureStream t 64 (f # gs)) (s, []))) =
      [uint8View (float32ArrayToInt16Array f),
       concat (map (\<lambda>g. uint8View (float32ArrayToInt16Array g)) (take 8 gs)),
       concat (map (\<lambda>g. uint8View (float32ArrayToInt16Array g)) (take 8 (drop 8 gs))),
       concat (map (\<lambda>g. uint8View (float32ArrayToInt16Array g)) (take 8 (drop 16 gs)))]"
    and "audioBufferParts (fst (run (captureStream t 64 (f # gs)) (s, []))) =
      map (\<lambda>g. uint8View (float32ArrayToInt16Array g)) (take 7 (drop 24 gs))"
    and "flushes (snd (run (captureStream (t + 2304) 64 hs)
            (run (captureStream t 64 (f # gs)) (s, [])))) =
         flushes (snd (run (captureStream t 64 (f # gs)) (s, [])))"
proof -
  define g where "g = nth gs"
  have gs: "gs = map g [0, 1, 2, 3, 4, 5, 6, 7, 8, 9, 10, 11, 12, 13, 14, 15, 16, 17, 18, 19, 20, 21, 22, 23, 24, 25, 26, 27, 28, 29, 30, 31, 32, 33, 34]"
    unfolding g_def by (rule explicit35 [OF assms(5)])
  have sil: "\<forall>k<35. \<not> isSpeech (g k)"
    using assms(5,6) by (simp add: g_def list_all_length)
  let ?st = "exec (AudioProcess t t t f) (s, [])"
  have st: "(fst ?st, snd ?st) = ?st" by simp
  have init: "isRunning (fst (s, []))" "audioBufferParts (fst (s, [])) = []"
    "lastSendTime (fst (s, [])) + 500 \<le> t"
    using assms(1-3) by simp_all
  note sp = speech_exec [OF init(1) assms(4) init(2) init(3)]
  note w = silent_window [where g = g and tr = "snd ?st", OF sp(1) sp(2) sp(3) sp(4) sil, unfolded st]
  have e: "run (captureStream t 64 (f # gs)) (s, []) =
      run (captureStream (t + 64) 64 (map g [0, 1, 2, 3, 4, 5, 6, 7, 8, 9, 10, 11, 12, 13, 14, 15, 16, 17, 18, 19, 20, 21, 22, 23, 24, 25, 26, 27, 28, 29, 30, 31, 32, 33, 34])) ?st"
    by (subst gs) simp
  have t0: "take 8 gs = map g [0, 1, 2, 3, 4, 5, 6, 7]" by (subst gs) simp
  have t1: "take 8 (drop 8 gs) = map g [8, 9, 10, 11, 12, 13, 14, 15]" by (subst gs) simp
  have t2: "take 8 (drop 16 gs) = map g [16, 17, 18, 19, 20, 21, 22, 23]" by (subst gs) simp
  have t3: "take 7 (drop 24 gs) = map g [24, 25, 26, 27, 28, 29, 30]" by (subst gs) simp
  show a: "flushes (snd (run (captureStream t 64 (f # gs)) (s, []))) =
      [uint8View (float32ArrayToInt16Array f),
       concat (map (\<lambda>g. uint8View (float32ArrayToInt16Array g)) (take 8 gs)),
       concat (map (\<lambda>g. uint8View (float32ArrayToInt16Array g)) (take 8 (drop 8 gs))),
       concat (map (\<lambda>g. uint8View (float32ArrayToInt16Array g)) (take 8 (drop 16 gs)))]"
    unfolding e w(1) sp(5) t0 t1 t2 by simp
  show "audioBufferParts (fst (run (captureStream t 64 (f # gs)) (s, []))) =
      map (\<lambda>g. uint8View (float32ArrayToInt16Array g)) (take 7 (drop 24 gs))"
    unfolding e w(2) t3 by simp
  have closed: "\<not> shouldSendAudio (t + 2304) (fst (run (captureStream t 64 (f # gs)) (s, [])))"
    unfolding e by (simp only: shouldSendAudio_def w(3)) (simp add: silenceTimeout_def)
  have running: "isRunning (fst (run (captureStream t 64 (f # gs)) (s, [])))"
    unfolding e by (rule w(4))
  from silence_after_window [OF closed _ running assms(7), of 64]
  show "flushes (snd (run (captureStream (t + 2304) 64 hs)
            (run (captureStream t 64 (f # gs)) (s, [])))) =
         flushes (snd (run (captureStream t 64 (f # gs)) (s, [])))"
    by simp
qed

text \<open>
  Claim C3, as amended. A stream of silent frames to an interface that has heard no
  speech sends nothing, whatever their number and timing. Let a frame that the code
  classifies as speech arrive at a running interface whose capture buffer is empty, at
  least 500 ms after the flush timer was set: it is sent at once, alone, in a first
  flush. The silent frames that follow inside the 2000 ms trailing window are buffered
  and sent too: with 35 silent frames 64 ms apart (each callback reading one time),
  three more flushes follow, at 512, 1024 and 1536 ms, each with the bytes of eight
  silent frames. The seven silent frames from 1600 ms to 1984 ms are buffered and stay
  in the buffer; the frames from 2048 ms on are not buffered, and further silence sends
  nothing. Four flushes occur, not one.
\<close>

theorem C3_trailing_window_sends_buffered_silence:
  assumes "lastSpeechTime s0 = None" and "list_all (\<lambda>g. \<not> isSpeech g) qs"
    and "isRunning s" and "audioBufferParts s = []" and "lastSendTime s + 500 \<le> t"
    and "isSpeech f" and "length gs = 35" and "list_all (\<lambda>g. \<not> isSpeech g) gs"
    and "list_all (\<lambda>g. \<not> isSpeech g) hs"
  shows "flushes (snd (run (captureStream t0 p qs) (s0, []))) = []
    \<and> flushes (snd (run (captureStream t 64 (f # gs)) (s, []))) =
      [uint8View (float32ArrayToInt16Array f),
       concat (map (\<lambda>g. uint8View (float32ArrayToInt16Array g)) (take 8 gs)),
       concat (map (\<lambda>g. uint8View (float32ArrayToInt16Array g)) (take 8 (drop 8 gs))),
       concat (map (\<lambda>g. uint8View (float32ArrayToInt16Array g)) (take 8 (drop 16 gs)))]
    \<and> audioBufferParts (fst (run (captureStream t 64 (f # gs)) (s, []))) =
      map (\<lambda>g. uint8View (float32ArrayToInt16Array g)) (take 7 (drop 24 gs))
    \<and> flushes (snd (run (captureStream (t + 2304) 64 hs)
            (run (captureStream t 64 (f # gs)) (s, [])))) =
         flushes (snd (run (captureStream t 64 (f # gs)) (s, [])))"
proof -
  have "flushes (snd (run (captureStream t0 p qs) (s0, []))) = []"
    using silence_never_spoken [of "(s0, [])" qs t0 p] assms(1,2) by simp
  with trailing_window_run [OF assms(3-9)] show ?thesis by blast
qed

text \<open>C3 at a started interface constructed at 0 ms: 40 frames of zeros send nothing;
  a frame of 1024 samples of the smallest float32 value above 0.02, at 1000 ms, followed
  by 35 frames of zeros is sent in four flushes.\<close>

theorem C3_witness:
  "lastSpeechTime (fst (start AudioOk (newAudioInterface 0 True True))) = None
   \<and> list_all (\<lambda>g. \<not> isSpeech g) (replicate 40 (replicate 1024 0))
   \<and> isRunning (fst (start AudioOk (newAudioInterface 0 True True)))
   \<and> isSpeech (replicate 1024 (10737419 / 536870912))
   \<and> calculateRMS (replicate 1024 (10737419 / 536870912)) = 10737419 / 536870912
   \<and> list_all (\<lambda>g. \<not> isSpeech g) (replicate 35 (replicate 1024 0))
   \<and> flushes (snd (run (captureStream 1000 64 (replicate 40 (replicate 1024 0)))
        (fst (start AudioOk (newAudioInterface 0 True True)), []))) = []
   \<and> length (flushes (snd (run
        (captureStream 1000 64 (replicate 1024 (10737419 / 536870912) # replicate 35 (replicate 1024 0)))
        (fst (start AudioOk (newAudioInterface 0 True True)), [])))) = 4
   \<and> hd (flushes (snd (run
        (captureStream 1000 64 (replicate 1024 (10737419 / 536870912) # replicate 35 (replicate 1024 0)))
        (fst (start AudioOk (newAudioInterface 0 True True)), []))))
      = uint8View (float32ArrayToInt16Array (replicate 1024 (10737419 / 536870912)))"
proof -
  let ?s = "fst (start AudioOk (newAudioInterface 0 True True))"
  let ?z = "replicate 1024 (0 :: real)"
  let ?f = "replicate 1024 (10737419 / 536870912 :: real)"
  have h1: "lastSpeechTime ?s = None" by (simp add: start_def newAudioInterface_def)
  have h2: "list_all (\<lambda>g. \<not> isSpeech g) (replicate 40 ?z)"
    by (simp add: list_all_iff isSpeech_replicate)
  have h3: "isRunning ?s" by (simp add: start_def)
  have h4: "audioBufferParts ?s = []" by (simp add: start_def newAudioInterface_def)
  have h5: "lastSendTime ?s + 500 \<le> 1000" by (simp add: start_def newAudioInterface_def)
  have h6: "isSpeech ?f" by (simp add: isSpeech_replicate)
  have h7: "length (replicate 35 ?z) = 35" by simp
  have h8: "list_all (\<lambda>g. \<not> isSpeech g) (replicate 35 ?z)"
    by (simp add: list_all_iff isSpeech_replicate)
  have h9: "list_all (\<lambda>g. \<not> isSpeech g) ([] :: Float32Array list)" by simp
  have r: "calculateRMS ?f = 10737419 / 536870912" by (simp add: calculateRMS_replicate)
  note c3 = C3_trailing_window_sends_buffered_silence [OF h1 h2 h3 h4 h5 h6 h7 h8 h9, of 1000 64]
  from c3 have a: "flushes (snd (run (captureStream 1000 64 (replicate 40 ?z)) (?s, []))) = []"
    by blast
  from c3 have "flushes (snd (run (captureStream 1000 64 (?f # replicate 35 ?z)) (?s, []))) =
      [uint8View (float32ArrayToInt16Array ?f),
       concat (map (\<lambda>g. uint8View (float32ArrayToInt16Array g)) (take 8 (replicate 35 ?z))),
       concat (map (\<lambda>g. uint8View (float32ArrayToInt16Array g)) (take 8 (drop 8 (replicate 35 ?z)))),
       concat (map (\<lambda>g. uint8View (float32ArrayToInt16Array g)) (take 8 (drop 16 (replicate 35 ?z))))]"
    by blast
  then have b: "length (flushes (snd (run (captureStream 1000 64 (?f # replicate 35 ?z)) (?s, [])))) = 4"
    and c: "hd (flushes (snd (run (captureStream 1000 64 (?f # replicate 35 ?z)) (?s, []))))
      = uint8View (float32ArrayToInt16Array ?f)"
    by simp_all
  from h1 h2 h3 h6 r h8 a b c show ?thesis by blast
qed

text \<open>Claim C3 as stated fails in that scenario: the 35 silent frames after the one
  speech frame (1024 samples of the smallest float32 value above 0.02) bring the number
  of flushes to four, not one.\<close>

theorem C3_counterexample:
  "length (flushes (snd (run
      (captureStream 1000 64 (replicate 1024 (10737419 / 536870912) # replicate 35 (replicate 1024 0)))
      (fst (start AudioOk (newAudioInterface 0 True True)), [])))) = 4"
proof -
  let ?s = "fst (start AudioOk (newAudioInterface 0 True True))"
  let ?z = "replicate 1024 (0 :: real)"
  let ?f = "replicate 1024 (10737419 / 536870912 :: real)"
  have h3: "isRunning ?s" by (simp add: start_def)
  have h4: "audioBufferParts ?s = []" by (simp add: start_def newAudioInterface_def)
  have h5: "lastSendTime ?s + 500 \<le> 1000" by (simp add: start_def newAudioInterface_def)
  have h6: "isSpeech ?f" by (simp add: isSpeech_replicate)
  have h7: "length (replicate 35 ?z) = 35" by simp
  have h8: "list_all (\<lambda>g. \<not> isSpeech g) (replicate 35 ?z)"
    by (simp add: list_all_iff isSpeech_replicate)
  have h9: "list_all (\<lambda>g. \<not> isSpeech g) ([] :: Float32Array list)" by simp
  from trailing_window_run(1) [OF h3 h4 h5 h6 h7 h8 h9]
  show ?thesis by simp
qed

subsection \<open>The conversation manager\<close>

lemmas manager_defs = newConversationManager_def newWebSocketManager_def newAudioInterface_def
  startConversation_def startFailed_def stopConversation_def updateState_def connect_def
  start_def stop_def disconnect_def binaryMessage_def captureFrame_def onInterrupt_def
  onAmplitudeChange_def onAudioInput_def sendInterrupt_def sendAudioData_def Let_def

text \<open>
  Claim C1 on the code. A conversation is started, two chunks of 4096 bytes arrive and
  the first is rendering, the second waiting, when a frame with RMS 0.1 is captured at
  1000 ms. The interrupt path sends the one "interrupt" message (before the frame's own
  audio) and lowers the playback-active flag, but it does not touch playback: the second
  chunk is still queued, the queue is still in its playing state and the source of the
  first chunk is still the current one, not stopped. \<^verbatim>\<open>onInterrupt\<close> of the
  conversation manager only calls \<^verbatim>\<open>sendInterrupt\<close>; nothing calls
  \<^verbatim>\<open>interruptPlayback\<close>.
\<close>

theorem C1_interrupt_leaves_playback_running:
  "outputQueue (audioInterface
      (captureFrame 1000 1000 1000 (replicate 1024 (1 / 10))
        (binaryMessage (replicate 4096 1) DeviceOk
          (binaryMessage (replicate 4096 0) DeviceOk
            (fst (startConversation SocketOpens AudioOk (newConversationManager 0 True)))))))
     = [replicate 4096 1]
   \<and> isOutputPlaying (audioInterface
      (captureFrame 1000 1000 1000 (replicate 1024 (1 / 10))
        (binaryMessage (replicate 4096 1) DeviceOk
          (binaryMessage (replicate 4096 0) DeviceOk
            (fst (startConversation SocketOpens AudioOk (newConversationManager 0 True)))))))
   \<and> currentOutputSource (audioInterface
      (captureFrame 1000 1000 1000 (replicate 1024 (1 / 10))
        (binaryMessage (replicate 4096 1) DeviceOk
          (binaryMessage (replicate 4096 0) DeviceOk
            (fst (startConversation SocketOpens AudioOk (newConversationManager 0 True)))))))
     = Some (samplesOf (replicate 4096 0))
   \<and> \<not> isAudioPlaying (audioInterface
      (captureFrame 1000 1000 1000 (replicate 1024 (1 / 10))
        (binaryMessage (replicate 4096 1) DeviceOk
          (binaryMessage (replicate 4096 0) DeviceOk
            (fst (startConversation SocketOpens AudioOk (newConversationManager 0 True)))))))
   \<and> wire (webSocketManager
      (captureFrame 1000 1000 1000 (replicate 1024 (1 / 10))
        (binaryMessage (replicate 4096 1) DeviceOk
          (binaryMessage (replicate 4096 0) DeviceOk
            (fst (startConversation SocketOpens AudioOk (newConversationManager 0 True)))))))
     = [TextFrame ''interrupt'',
        BinaryFrame (uint8View (float32ArrayToInt16Array (replicate 1024 (1 / 10))))]
   \<and> snd (onaudioprocess 1000 1000 1000 (replicate 1024 (1 / 10))
      (audioInterface
        (binaryMessage (replicate 4096 1) DeviceOk
          (binaryMessage (replicate 4096 0) DeviceOk
            (fst (startConversation SocketOpens AudioOk (newConversationManager 0 True)))))))
     = [AmplitudeCallback (1 / 10), OnInterrupt,
        InputCallback (uint8View (float32ArrayToInt16Array (replicate 1024 (1 / 10))))]"
  by (simp add: manager_defs play_def playNextOutputChunk_def convertPCMToFloat32_even
      onaudioprocess_def processAudioData_def checkForSpeech_def bufferAudio_def
      sendBatched_def sendDue_def shouldSendAudio_def silenceTimeout_def sendInterval_def
      interruptThreshold_def isSpeech_replicate calculateRMS_replicate)

text \<open>The capture path never touches the playback queue, whatever the frame and the
  state.\<close>

lemma capture_leaves_playback:
  "outputQueue (fst (onaudioprocess t0 t1 t2 f s)) = outputQueue s
   \<and> isOutputPlaying (fst (onaudioprocess t0 t1 t2 f s)) = isOutputPlaying s
   \<and> currentOutputSource (fst (onaudioprocess t0 t1 t2 f s)) = currentOutputSource s
   \<and> renderStarts (snd (onaudioprocess t0 t1 t2 f s)) = []"
  by (simp add: onaudioprocess_def processAudioData_def checkForSpeech_def bufferAudio_def
      sendBatched_def Let_def split_beta)

text \<open>
  Claim C2 on the code. The socket opens and then the audio interface fails to start:
  in the first case \<^verbatim>\<open>getUserMedia\<close> rejects, in the second the microphone is
  acquired and creating the input \<^verbatim>\<open>AudioContext\<close> throws. The error is surfaced
  and the error field is set, but the \<^verbatim>\<open>stopConversation()\<close> of the
  \<^verbatim>\<open>catch\<close> block returns at once, because \<^verbatim>\<open>isRunning\<close> is only set at the
  end of a successful start: the socket stays open and running, and in the second case
  the microphone stream stays live.
\<close>

theorem C2_failed_start_leaves_socket_open:
  "snd (startConversation SocketOpens (GetUserMediaRejects (JsError ''Permission denied''))
      (newConversationManager 0 True)) = Some (JsError ''Permission denied'')
   \<and> error (state (fst (startConversation SocketOpens
        (GetUserMediaRejects (JsError ''Permission denied'')) (newConversationManager 0 True))))
     = Some ''Failed to start conversation: Permission denied''
   \<and> \<not> cm_isRunning (fst (startConversation SocketOpens
        (GetUserMediaRejects (JsError ''Permission denied'')) (newConversationManager 0 True)))
   \<and> websocket (webSocketManager (fst (startConversation SocketOpens
        (GetUserMediaRejects (JsError ''Permission denied'')) (newConversationManager 0 True))))
     = Some OPEN
   \<and> ws_isRunning (webSocketManager (fst (startConversation SocketOpens
        (GetUserMediaRejects (JsError ''Permission denied'')) (newConversationManager 0 True))))
   \<and> websocket (webSocketManager (fst (startConversation SocketOpens
        (InputContextThrows (JsError ''NotSupportedError'')) (newConversationManager 0 True))))
     = Some OPEN
   \<and> inputStream (audioInterface (fst (startConversation SocketOpens
        (InputContextThrows (JsError ''NotSupportedError'')) (newConversationManager 0 True))))"
  by (simp add: manager_defs)

text \<open>In general: a start that fails leaves the manager as the \<^verbatim>\<open>catch\<close> block's
  \<^verbatim>\<open>updateState\<close> made it; \<^verbatim>\<open>stopConversation\<close> changes nothing.\<close>

lemma stopConversation_not_running: "\<not> cm_isRunning cm \<Longrightarrow> stopConversation cm = cm"
  by (simp add: stopConversation_def)

lemma failed_start_keeps_resources:
  assumes "\<not> cm_isRunning cm" and "startConversation net audio cm = (cm', Some e)"
  shows "webSocketManager cm' = fst (connect net (webSocketManager cm))"
    and "snd (connect net (webSocketManager cm)) = None \<Longrightarrow>
         audioInterface cm' = fst (start audio (audioInterface cm))"
  using assms
  by (auto simp: startConversation_def startFailed_def stopConversation_def updateState_def
      Let_def split_beta split: option.splits)

text \<open>
  Claim C9 on the code. The \<^verbatim>\<open>try\<close> of \<^verbatim>\<open>playNextOutputChunk\<close> covers
  \<^verbatim>\<open>source.start()\<close> only. When the device refuses a chunk before that call, the
  render start fails as well, and the code does not do what the claim says. Here a
  started, idle interface receives an empty binary message, for which
  \<^verbatim>\<open>createBuffer(1, 0, 16000)\<close> throws a \<^verbatim>\<open>NotSupportedError\<close>: the chunk has
  left the queue, but the exception leaves \<^verbatim>\<open>playNextOutputChunk\<close> and nothing is
  reported on the console; the queue stays in its playing state although no source is
  rendering, so no \<^verbatim>\<open>ended\<close> notification will come; and the two chunks of 4096 bytes
  received afterwards are queued and never started.
\<close>

theorem C9_setup_failure_stalls_queue:
  "snd (play [] (SetupThrows (JsError ''NotSupportedError''))
      (fst (start AudioOk (newAudioInterface 0 True True))))
     = [Thrown (JsError ''NotSupportedError'')]
   \<and> isOutputPlaying (fst (play [] (SetupThrows (JsError ''NotSupportedError''))
      (fst (start AudioOk (newAudioInterface 0 True True)))))
   \<and> currentOutputSource (fst (play [] (SetupThrows (JsError ''NotSupportedError''))
      (fst (start AudioOk (newAudioInterface 0 True True))))) = None
   \<and> outputQueue (fst (play [] (SetupThrows (JsError ''NotSupportedError''))
      (fst (start AudioOk (newAudioInterface 0 True True))))) = []
   \<and> snd (run [Play [] (SetupThrows (JsError ''NotSupportedError'')),
        Play (replicate 4096 0) DeviceOk, Play (replicate 4096 1) DeviceOk]
      (fst (start AudioOk (newAudioInterface 0 True True)), []))
     = [Thrown (JsError ''NotSupportedError'')]
   \<and> isOutputPlaying (fst (run [Play [] (SetupThrows (JsError ''NotSupportedError'')),
        Play (replicate 4096 0) DeviceOk, Play (replicate 4096 1) DeviceOk]
      (fst (start AudioOk (newAudioInterface 0 True True)), [])))
   \<and> outputQueue (fst (run [Play [] (SetupThrows (JsError ''NotSupportedError'')),
        Play (replicate 4096 0) DeviceOk, Play (replicate 4096 1) DeviceOk]
      (fst (start AudioOk (newAudioInterface 0 True True)), [])))
     = [replicate 4096 0, replicate 4096 1]"
  by (simp add: exec_def play_def playNextOutputChunk_def convertPCMToFloat32_def
      start_def newAudioInterface_def Let_def)

text \<open>In general: an exception before \<^verbatim>\<open>source.start()\<close> leaves the queue playing,
  unreported, whatever the chunk and the state.\<close>

lemma setup_failure_stalls_queue:
  assumes "outputAudioContext s" and "outputQueue s = c # q" and "even (length c)"
  shows "playNextOutputChunk (SetupThrows e) s =
      (s\<lparr>isOutputPlaying := True, outputQueue := q\<rparr>, [Thrown e])"
  using assms
  by (simp add: playNextOutputChunk_def convertPCMToFloat32_even Let_def)

subsection \<open>A chunk of odd length\<close>

text \<open>A received chunk with an odd number of bytes is taken from the queue, the
  conversion throws outside the \<^verbatim>\<open>try\<close>, and the queue is left in its playing
  state with nothing rendering: chunks handed to \<^verbatim>\<open>play\<close> afterwards are queued and
  never started.\<close>

lemma odd_chunk_stalls_playback:
  assumes "outputAudioContext s" and "\<not> isOutputPlaying s" and "outputQueue s = []"
    and "odd (length c)"
  shows "isOutputPlaying (fst (play c dev s))"
    and "renderStarts (snd (play c dev s)) = []"
    and "raised (snd (play c dev s)) \<noteq> None"
    and "play c' dev' (fst (play c dev s)) =
      ((fst (play c dev s))\<lparr>isAudioPlaying := True, outputQueue := [c']\<rparr>, [])"
  using assms
  by (simp_all add: play_def playNextOutputChunk_def convertPCMToFloat32_def Let_def)

end
